theory Spec2Isabelle
  imports Main "HOL-Library.Product_Lexorder"
begin

section \<open>Python values and text\<close>

text \<open>
  The two graders (\<^verbatim>\<open>eight-puzzle-game/test.py\<close> and
  \<^verbatim>\<open>linear-regime-estimation/test.py\<close>) are embedded function by function.
  Python \<^verbatim>\<open>str\<close> is modelled as \<^typ>\<open>string\<close>, one \<^typ>\<open>char\<close> per code point: a
  \<^typ>\<open>char\<close> holds the code points U+0000 to U+00FF, and on texts of these code points
  the library operations (\<^verbatim>\<open>str.strip\<close>, \<^verbatim>\<open>str.upper\<close>, the \<^verbatim>\<open>re\<close> patterns,
  \<^verbatim>\<open>json.loads\<close>, \<^verbatim>\<open>datetime.strptime\<close>) are modelled as Python computes them. The
  limits of the interpreter (depth of recursion, digits of an integer) are not modelled.
  Values decoded from JSON, and the values stored in a
  \<^verbatim>\<open>details\<close> dictionary, are of type \<open>json\<close>; a Python \<^verbatim>\<open>dict\<close> is an association
  list in insertion order with distinct keys.
\<close>

datatype json =
    JNull
  | JBool bool
  | JInt int
  | JFloat string
  | JStr string
  | JList "json list"
  | JObj "(string \<times> json) list"

text \<open>\<^verbatim>\<open>d[k] = v\<close>: an existing key keeps its position, a new key goes last.\<close>

fun dict_set :: "(string \<times> json) list \<Rightarrow> string \<Rightarrow> json \<Rightarrow> (string \<times> json) list" where
  "dict_set [] k v = [(k, v)]"
| "dict_set ((k', v') # d) k v = (if k' = k then (k, v) # d else (k', v') # dict_set d k v)"

text \<open>\<^verbatim>\<open>dict(pairs)\<close>, as \<^verbatim>\<open>json.loads\<close> builds an object from its members.\<close>

definition py_dict :: "(string \<times> json) list \<Rightarrow> (string \<times> json) list" where
  "py_dict pairs = foldl (\<lambda>d (k, v). dict_set d k v) [] pairs"

text \<open>\<^verbatim>\<open>type(v).__name__\<close>\<close>

fun type_name :: "json \<Rightarrow> string" where
  "type_name JNull = ''NoneType''"
| "type_name (JBool b) = ''bool''"
| "type_name (JInt i) = ''int''"
| "type_name (JFloat f) = ''float''"
| "type_name (JStr s) = ''str''"
| "type_name (JList l) = ''list''"
| "type_name (JObj d) = ''dict''"

text \<open>
  \<^verbatim>\<open>str.isspace\<close> on one character, which is also what \<^verbatim>\<open>\s\<close> matches: tab, line
  feed, vertical tab, form feed, carriage return, the four separators
  \<^verbatim>\<open>\x1c\<close>..\<^verbatim>\<open>\x1f\<close>, the space, next line (U+0085) and the no-break space (U+00A0).
\<close>

definition py_isspace :: "char \<Rightarrow> bool" where
  "py_isspace c = (c \<in> set [CHR 0x09, CHR 0x0A, CHR 0x0B, CHR 0x0C, CHR 0x0D,
                             CHR 0x1C, CHR 0x1D, CHR 0x1E, CHR 0x1F, CHR 0x20,
                             CHR 0x85, CHR 0xA0])"

definition py_strip :: "string \<Rightarrow> string" where
  "py_strip s = rev (dropWhile py_isspace (rev (dropWhile py_isspace s)))"

text \<open>
  \<^verbatim>\<open>str.upper\<close> on one character, as the code points of the result: the letters
  \<^verbatim>\<open>a\<close>..\<^verbatim>\<open>z\<close> and U+00E0..U+00FE (but the division sign U+00F7) move down by 32, the
  sharp s (U+00DF) becomes \<^verbatim>\<open>SS\<close>, and the micro sign (U+00B5) and the y with diaeresis
  (U+00FF) become U+039C and U+0178, which no \<^typ>\<open>char\<close> holds: hence the result of
  \<^verbatim>\<open>str.upper\<close> is a list of code points.
\<close>

definition upper_codes :: "char \<Rightarrow> int list" where
  "upper_codes c =
     (let n = of_char c :: int
      in if 97 \<le> n \<and> n \<le> 122 then [n - 32]
         else if n = 181 then [924]
         else if n = 223 then [83, 83]
         else if 224 \<le> n \<and> n \<le> 254 \<and> n \<noteq> 247 then [n - 32]
         else if n = 255 then [376]
         else [n])"

definition py_upper :: "string \<Rightarrow> int list" where
  "py_upper s = concat (map upper_codes s)"

text \<open>
  \<^verbatim>\<open>str.lower\<close> on one character, as a code point: \<^verbatim>\<open>A\<close>..\<^verbatim>\<open>Z\<close> and U+00C0..U+00DE
  (but the multiplication sign U+00D7) move up by 32.
\<close>

definition lower_code :: "char \<Rightarrow> int" where
  "lower_code c =
     (let n = of_char c :: int
      in if (65 \<le> n \<and> n \<le> 90) \<or> (192 \<le> n \<and> n \<le> 222 \<and> n \<noteq> 215) then n + 32 else n)"

text \<open>Truthiness of an \<^verbatim>\<open>str | None\<close> value: \<^verbatim>\<open>None\<close> and \<^verbatim>\<open>""\<close> are falsy.\<close>

fun truthy_str :: "string option \<Rightarrow> bool" where
  "truthy_str None = False"
| "truthy_str (Some s) = (s \<noteq> [])"

section \<open>\<^verbatim>\<open>json.loads\<close>\<close>

text \<open>
  The decoder of the standard library with its default arguments: \<^verbatim>\<open>None\<close> stands for
  \<^verbatim>\<open>JSONDecodeError\<close>. A float keeps its lexeme. An escape \<^verbatim>\<open>\uXXXX\<close> yields the
  character of its code point; a code point beyond U+00FF, which no \<^typ>\<open>char\<close> holds,
  is kept as the bytes of its UTF-8 encoding (\<open>py_chr\<close>), and the model is exact for the
  payloads whose escapes stay within U+00FF.
\<close>

definition is_json_ws :: "char \<Rightarrow> bool" where
  "is_json_ws c = (c \<in> set [CHR 0x20, CHR 0x09, CHR 0x0A, CHR 0x0D])"

definition skip_ws :: "string \<Rightarrow> string" where
  "skip_ws s = dropWhile is_json_ws s"

definition is_digit :: "char \<Rightarrow> bool" where
  "is_digit c = (c \<in> set ''0123456789'')"

definition digit_val :: "char \<Rightarrow> int" where
  "digit_val c = (case map_of (zip ''0123456789'' [0, 1, 2, 3, 4, 5, 6, 7, 8, 9]) c of
                    Some d \<Rightarrow> d | None \<Rightarrow> 0)"

definition decimal :: "string \<Rightarrow> int" where
  "decimal ds = foldl (\<lambda>a c. 10 * a + digit_val c) 0 ds"

definition hex_val :: "char \<Rightarrow> int option" where
  "hex_val c = map_of (zip ''0123456789abcdefABCDEF''
                  [0, 1, 2, 3, 4, 5, 6, 7, 8, 9, 10, 11, 12, 13, 14, 15, 10, 11, 12, 13, 14, 15]) c"

text \<open>\<^verbatim>\<open>_decode_uXXXX\<close>: four hexadecimal digits.\<close>

fun decode_uXXXX :: "string \<Rightarrow> int option" where
  "decode_uXXXX (a # b # c # d # rest) =
     (case (hex_val a, hex_val b, hex_val c, hex_val d) of
        (Some x, Some y, Some z, Some w) \<Rightarrow> Some (((x * 16 + y) * 16 + z) * 16 + w)
      | _ \<Rightarrow> None)"
| "decode_uXXXX s = None"

definition py_chr :: "int \<Rightarrow> string" where
  "py_chr u =
     (if u < 0x100 then [char_of u]
      else if u < 0x800 then [char_of (0xC0 + u div 64), char_of (0x80 + u mod 64)]
      else if u < 0x10000 then
        [char_of (0xE0 + u div 4096), char_of (0x80 + (u div 64) mod 64), char_of (0x80 + u mod 64)]
      else
        [char_of (0xF0 + u div 262144), char_of (0x80 + (u div 4096) mod 64),
         char_of (0x80 + (u div 64) mod 64), char_of (0x80 + u mod 64)])"

definition BACKSLASH :: "char \<Rightarrow> char option" where
  "BACKSLASH e = map_of (zip [CHR 0x22, CHR 0x5C, CHR ''/'', CHR ''b'', CHR ''f'', CHR ''n'', CHR ''r'', CHR ''t'']
                             [CHR 0x22, CHR 0x5C, CHR ''/'', CHR 0x08, CHR 0x0C, CHR 0x0A, CHR 0x0D, CHR 0x09]) e"

text \<open>
  A \<^verbatim>\<open>\u\<close> escape at the head of the text (the text starts after the \<^verbatim>\<open>u\<close>): the
  code point and the number of characters consumed; a high surrogate followed by an
  escaped low surrogate is one code point.
\<close>

definition unicode_escape :: "string \<Rightarrow> (int \<times> nat) option" where
  "unicode_escape s =
     (case decode_uXXXX s of
        None \<Rightarrow> None
      | Some uni \<Rightarrow>
          if 0xD800 \<le> uni \<and> uni \<le> 0xDBFF \<and> take 2 (drop 4 s) = [CHR 0x5C, CHR ''u''] then
            (case decode_uXXXX (drop 6 s) of
               None \<Rightarrow> None
             | Some uni2 \<Rightarrow>
                 if 0xDC00 \<le> uni2 \<and> uni2 \<le> 0xDFFF
                 then Some (0x10000 + ((uni - 0xD800) * 1024 + (uni2 - 0xDC00)), 10)
                 else Some (uni, 4))
          else Some (uni, 4))"

text \<open>
  \<^verbatim>\<open>scanstring\<close> in strict mode, from the character after the opening quote: the
  decoded string and the text after the closing quote. The counter \<open>k\<close> is the number
  of characters of an escape still to be passed over.
\<close>

fun scanstring_from :: "nat \<Rightarrow> string \<Rightarrow> (string \<times> string) option" where
  "scanstring_from k [] = None"
| "scanstring_from (Suc k) (c # cs) = scanstring_from k cs"
| "scanstring_from 0 (c # cs) =
     (if c = CHR 0x22 then Some ([], cs)
      else if c = CHR 0x5C then
        (case cs of
           [] \<Rightarrow> None
         | e # es \<Rightarrow>
             if e = CHR ''u'' then
               (case unicode_escape es of
                  None \<Rightarrow> None
                | Some (uni, n) \<Rightarrow>
                    map_option (\<lambda>(str, rest). (py_chr uni @ str, rest)) (scanstring_from (Suc n) cs))
             else
               (case BACKSLASH e of
                  None \<Rightarrow> None
                | Some ch \<Rightarrow> map_option (\<lambda>(str, rest). (ch # str, rest)) (scanstring_from 1 cs)))
      else if (of_char c :: int) < 0x20 then None
      else map_option (\<lambda>(str, rest). (c # str, rest)) (scanstring_from 0 cs))"

definition scanstring :: "string \<Rightarrow> (string \<times> string) option" where
  "scanstring s = scanstring_from 0 s"

text \<open>
  \<^verbatim>\<open>NUMBER_RE = (-?(?:0|[1-9][0-9]*))(\.[0-9]+)?([eE][-+]?[0-9]+)?\<close>: an integer
  when there is neither fraction nor exponent, a float otherwise.
\<close>

definition match_frac :: "string \<Rightarrow> string" where
  "match_frac s =
     (case s of
        p # ps \<Rightarrow> if p = CHR ''.'' \<and> takeWhile is_digit ps \<noteq> [] then p # takeWhile is_digit ps else []
      | [] \<Rightarrow> [])"

definition match_exp :: "string \<Rightarrow> string" where
  "match_exp s =
     (case s of
        e # r \<Rightarrow>
          if e = CHR ''e'' \<or> e = CHR ''E'' then
            (let sg = (case r of g # _ \<Rightarrow> if g = CHR ''-'' \<or> g = CHR ''+'' then [g] else [] | [] \<Rightarrow> []);
                 ds = takeWhile is_digit (drop (length sg) r)
             in if ds = [] then [] else e # sg @ ds)
          else []
      | [] \<Rightarrow> [])"

definition match_number :: "string \<Rightarrow> (json \<times> string) option" where
  "match_number s =
     (let sg = (case s of c # _ \<Rightarrow> if c = CHR ''-'' then [c] else [] | [] \<Rightarrow> []);
          s1 = drop (length sg) s
      in case s1 of
           [] \<Rightarrow> None
         | d # ds \<Rightarrow>
             if \<not> is_digit d then None
             else
               (let ip = (if d = CHR ''0'' then [d] else d # takeWhile is_digit ds);
                    s2 = drop (length ip) s1;
                    frac = match_frac s2;
                    s3 = drop (length frac) s2;
                    ex = match_exp s3;
                    s4 = drop (length ex) s3
                in if frac = [] \<and> ex = []
                   then Some (JInt ((if sg = [] then 1 else - 1) * decimal ip), s4)
                   else Some (JFloat (sg @ ip @ frac @ ex), s4)))"

definition match_constant :: "string \<Rightarrow> (json \<times> string) option" where
  "match_constant s =
     (if take 3 s = ''NaN'' then Some (JFloat ''NaN'', drop 3 s)
      else if take 8 s = ''Infinity'' then Some (JFloat ''Infinity'', drop 8 s)
      else if take 9 s = ''-Infinity'' then Some (JFloat ''-Infinity'', drop 9 s)
      else None)"

text \<open>
  \<^verbatim>\<open>scan_once\<close>, \<^verbatim>\<open>JSONArray\<close> and \<^verbatim>\<open>JSONObject\<close>. The first argument bounds the depth
  of the calls; \<open>json_loads\<close> starts with more than any text can use (the lemma
  \<open>json_loads_fuel\<close> below: a larger bound changes nothing).
  \<open>array_items\<close> starts at the first character of an element, \<open>object_items\<close> after
  the opening quote of a key.
\<close>

fun scan_once :: "nat \<Rightarrow> string \<Rightarrow> (json \<times> string) option"
  and array_items :: "nat \<Rightarrow> string \<Rightarrow> (json list \<times> string) option"
  and object_items :: "nat \<Rightarrow> string \<Rightarrow> ((string \<times> json) list \<times> string) option"
where
  "scan_once 0 s = None"
| "scan_once (Suc n) [] = None"
| "scan_once (Suc n) (c # cs) =
     (if c = CHR 0x22 then map_option (\<lambda>(str, rest). (JStr str, rest)) (scanstring cs)
      else if c = CHR ''{'' then
        (case skip_ws cs of
           [] \<Rightarrow> None
         | d # ds \<Rightarrow>
             if d = CHR ''}'' then Some (JObj [], ds)
             else if d = CHR 0x22
             then map_option (\<lambda>(pairs, rest). (JObj (py_dict pairs), rest)) (object_items n ds)
             else None)
      else if c = CHR ''['' then
        (case skip_ws cs of
           [] \<Rightarrow> None
         | d # ds \<Rightarrow>
             if d = CHR '']'' then Some (JList [], ds)
             else map_option (\<lambda>(vs, rest). (JList vs, rest)) (array_items n (d # ds)))
      else if take 4 (c # cs) = ''null'' then Some (JNull, drop 4 (c # cs))
      else if take 4 (c # cs) = ''true'' then Some (JBool True, drop 4 (c # cs))
      else if take 5 (c # cs) = ''false'' then Some (JBool False, drop 5 (c # cs))
      else
        (case match_number (c # cs) of
           Some r \<Rightarrow> Some r
         | None \<Rightarrow> match_constant (c # cs)))"
| "array_items 0 s = None"
| "array_items (Suc n) s =
     (case scan_once n s of
        None \<Rightarrow> None
      | Some (v, r) \<Rightarrow>
          (case skip_ws r of
             [] \<Rightarrow> None
           | d # ds \<Rightarrow>
               if d = CHR '']'' then Some ([v], ds)
               else if d = CHR '','' then
                 map_option (\<lambda>(vs, rest). (v # vs, rest)) (array_items n (skip_ws ds))
               else None))"
| "object_items 0 s = None"
| "object_items (Suc n) s =
     (case scanstring s of
        None \<Rightarrow> None
      | Some (key, r) \<Rightarrow>
          (case skip_ws r of
             [] \<Rightarrow> None
           | d # ds \<Rightarrow>
               if d \<noteq> CHR '':'' then None
               else
                 (case scan_once n (skip_ws ds) of
                    None \<Rightarrow> None
                  | Some (v, r2) \<Rightarrow>
                      (case skip_ws r2 of
                         [] \<Rightarrow> None
                       | e # es \<Rightarrow>
                           if e = CHR ''}'' then Some ([(key, v)], es)
                           else if e = CHR '','' then
                             (case skip_ws es of
                                [] \<Rightarrow> None
                              | q # qs \<Rightarrow>
                                  if q = CHR 0x22
                                  then map_option (\<lambda>(pairs, rest). ((key, v) # pairs, rest))
                                         (object_items n qs)
                                  else None)
                           else None))))"

definition json_loads :: "string \<Rightarrow> json option" where
  "json_loads s =
     (case scan_once (2 * length s + 2) (skip_ws s) of
        None \<Rightarrow> None
      | Some (obj, rest) \<Rightarrow> if skip_ws rest = [] then Some obj else None)"

section \<open>Payload extraction from text\<close>

subsection \<open>Tag extraction (eight-puzzle-game)\<close>

text \<open>
  \<^verbatim>\<open>re.compile(r'<answer>(.*?)</answer>', re.IGNORECASE | re.DOTALL).search(text)\<close>.
  \<^verbatim>\<open>IGNORECASE\<close> compares the lower case of a character with the lower case of the
  literal. \<open>ci_prefix p s\<close>: the
  literal \<open>p\<close> matches at the head of \<open>s\<close>.
\<close>

fun ci_prefix :: "string \<Rightarrow> string \<Rightarrow> bool" where
  "ci_prefix [] s = True"
| "ci_prefix (p # ps) [] = False"
| "ci_prefix (p # ps) (c # cs) = (lower_code p = lower_code c \<and> ci_prefix ps cs)"

text \<open>
  \<^verbatim>\<open>(.*?)</answer>\<close> from a fixed position: the lazy group takes the shortest body,
  any character included (\<^verbatim>\<open>DOTALL\<close>), after which the closing tag matches.
\<close>

fun lazy_body :: "string \<Rightarrow> string option" where
  "lazy_body [] = None"
| "lazy_body (c # cs) =
     (if ci_prefix ''</answer>'' (c # cs) then Some []
      else map_option ((#) c) (lazy_body cs))"

text \<open>\<^verbatim>\<open>search\<close>: the leftmost position where the pattern matches; group 1 of the match.\<close>

fun answer_search :: "string \<Rightarrow> string option" where
  "answer_search [] = None"
| "answer_search (c # cs) =
     (if ci_prefix ''<answer>'' (c # cs) then
        (case lazy_body (drop 8 (c # cs)) of
           Some body \<Rightarrow> Some body
         | None \<Rightarrow> answer_search cs)
      else answer_search cs)"

definition extract_answer_from_text :: "string \<Rightarrow> string option" where
  "extract_answer_from_text text = map_option py_strip (answer_search text)"

definition normalize_answer :: "string \<Rightarrow> int list" where
  "normalize_answer answer = py_upper (py_strip answer)"

subsection \<open>Structured extraction (linear-regime-estimation)\<close>

text \<open>
  \<^verbatim>\<open>re.compile(r'```(?:json)?\s*(\{.*?\})\s*```', re.DOTALL).search(text)\<close>.
  \<open>block_body\<close> is \<^verbatim>\<open>.*?\}\s*```\<close> after the opening brace: the shortest text that
  ends in a closing brace followed by optional white space and a fence.
\<close>

definition fence :: string where
  "fence = [CHR 0x60, CHR 0x60, CHR 0x60]"

fun block_body :: "string \<Rightarrow> string option" where
  "block_body [] = None"
| "block_body (c # cs) =
     (if c = CHR ''}'' \<and> take 3 (dropWhile py_isspace cs) = fence then Some [c]
      else map_option ((#) c) (block_body cs))"

definition block_at :: "string \<Rightarrow> string option" where
  "block_at s =
     (if take 3 s = fence then
        (let r = drop 3 s;
             r1 = (if take 4 r = ''json'' then drop 4 r else r)
         in case dropWhile py_isspace r1 of
              [] \<Rightarrow> None
            | c # cs \<Rightarrow> if c = CHR ''{'' then map_option ((#) c) (block_body cs) else None)
      else None)"

fun json_block_search :: "string \<Rightarrow> string option" where
  "json_block_search [] = None"
| "json_block_search (c # cs) =
     (case block_at (c # cs) of
        Some g \<Rightarrow> Some g
      | None \<Rightarrow> json_block_search cs)"

text \<open>
  \<^verbatim>\<open>re.compile(r'\{[^{}]*(?:\{[^{}]*\}[^{}]*)*\}', re.DOTALL).findall(text)\<close>.
  \<open>object_tail inner s\<close> matches what follows the opening brace: \<open>inner\<close> tells
  whether a nested pair of braces is open; a third level makes the match fail. It
  returns the matched text and what follows it.
\<close>

fun object_tail :: "bool \<Rightarrow> string \<Rightarrow> (string \<times> string) option" where
  "object_tail inner [] = None"
| "object_tail inner (c # cs) =
     (if c = CHR ''}'' then
        (if inner then map_option (\<lambda>(m, rest). (c # m, rest)) (object_tail False cs)
         else Some ([c], cs))
      else if c = CHR ''{'' then
        (if inner then None
         else map_option (\<lambda>(m, rest). (c # m, rest)) (object_tail True cs))
      else map_option (\<lambda>(m, rest). (c # m, rest)) (object_tail inner cs))"

text \<open>
  The matches from left to right, without overlap: \<open>k\<close> counts the characters of the
  last match still to be passed over.
\<close>

fun json_findall_from :: "nat \<Rightarrow> string \<Rightarrow> string list" where
  "json_findall_from k [] = []"
| "json_findall_from (Suc k) (c # cs) = json_findall_from k cs"
| "json_findall_from 0 (c # cs) =
     (if c = CHR ''{'' then
        (case object_tail False cs of
           Some (m, rest) \<Rightarrow> (c # m) # json_findall_from (length m) cs
         | None \<Rightarrow> json_findall_from 0 cs)
      else json_findall_from 0 cs)"

definition json_findall :: "string \<Rightarrow> string list" where
  "json_findall text = json_findall_from 0 text"

text \<open>
  Every text handed to \<^verbatim>\<open>json.loads\<close> here starts with an opening brace, so what it
  decodes is an object: the \<^verbatim>\<open>dict\<close> of the annotation \<^verbatim>\<open>dict | None\<close>.
\<close>

definition loads_object :: "string \<Rightarrow> (string \<times> json) list option" where
  "loads_object s = (case json_loads s of Some (JObj d) \<Rightarrow> Some d | _ \<Rightarrow> None)"

fun first_loads :: "string list \<Rightarrow> (string \<times> json) list option" where
  "first_loads [] = None"
| "first_loads (m # ms) =
     (case loads_object m of
        Some d \<Rightarrow> Some d
      | None \<Rightarrow> first_loads ms)"

definition extract_json_from_text :: "string \<Rightarrow> (string \<times> json) list option" where
  "extract_json_from_text text =
     (case (case json_block_search text of
              Some g \<Rightarrow> loads_object g
            | None \<Rightarrow> None) of
        Some d \<Rightarrow> Some d
      | None \<Rightarrow> first_loads (json_findall text))"

text \<open>Truthiness of a \<^verbatim>\<open>dict | None\<close> value: \<^verbatim>\<open>None\<close> and \<^verbatim>\<open>{}\<close> are falsy.\<close>

fun truthy_dict :: "(string \<times> json) list option \<Rightarrow> bool" where
  "truthy_dict None = False"
| "truthy_dict (Some d) = (d \<noteq> [])"

section \<open>Transcripts\<close>

text \<open>
  The records the graders read. A tool call is a dictionary whose \<^verbatim>\<open>"function"\<close>
  entry holds \<^verbatim>\<open>"name"\<close> and \<^verbatim>\<open>"arguments"\<close>; the arguments are a JSON-encoded string
  or an already decoded value. A field that is absent (or \<^verbatim>\<open>None\<close>) is \<open>None\<close>. An
  element of a list that is not a dictionary is \<open>NonDictCall\<close>, \<open>NonDictMessage\<close>.
\<close>

datatype tool_call =
    NonDictCall
  | ToolCall (fn_name: "string option") (fn_arguments: "json option")

datatype message =
    NonDictMessage
  | Message (role: "string option") (tool_calls: "tool_call list option") (content: "string option")

record result =
  status :: "string option"
  conversation :: "message list option"
  task_result :: "string option"

datatype bp_feedback =
    CountMismatch nat nat
  | AllWithinTolerance
  | Mismatches "((int \<times> int \<times> int) \<times> (int \<times> int \<times> int) \<times> int) list"
  | DateParseError string

text \<open>
  The feedback text is kept as the list of its lines, each line as the data its format
  string is filled with.
\<close>

datatype feedback_line =
    NoValidAnswer
  | FoundAnswer string
  | CodeLine bool string string
  | StatusNotSuccess
  | NoValidJson
  | MissingField string
  | MustBeInteger string
  | MustBeList string
  | FoundJson "(string \<times> json) list"
  | RegimeCountLine bool json int
  | BreakpointLine bp_feedback

record outcome =
  passed :: bool
  feedback :: "feedback_line list"
  details :: "(string \<times> json) list"

text \<open>
  A loop that returns at the first element for which its body returns:
  \<^verbatim>\<open>for x in xs: ... return\<close>.
\<close>

fun first_some :: "('a \<Rightarrow> 'b option) \<Rightarrow> 'a list \<Rightarrow> 'b option" where
  "first_some f [] = None"
| "first_some f (x # xs) = (case f x of Some y \<Rightarrow> Some y | None \<Rightarrow> first_some f xs)"

text \<open>
  \<^verbatim>\<open>args_str = func.get("arguments", "{}")\<close>;
  \<^verbatim>\<open>args = json.loads(args_str) if isinstance(args_str, str) else args_str\<close>.
  \<open>None\<close> is the \<^verbatim>\<open>JSONDecodeError\<close>, which the \<^verbatim>\<open>except\<close> clause swallows.
\<close>

fun decode_arguments :: "json option \<Rightarrow> json option" where
  "decode_arguments None = json_loads ''{}''"
| "decode_arguments (Some (JStr args_str)) = json_loads args_str"
| "decode_arguments (Some args) = Some args"

text \<open>
  \<^verbatim>\<open>args["result"]\<close> when \<^verbatim>\<open>"result" in args\<close>, as a text. Arguments that are not a
  dictionary raise \<^verbatim>\<open>TypeError\<close> at \<^verbatim>\<open>in\<close> or at the subscript, and a result that is
  not a string raises it in the pattern search; the \<^verbatim>\<open>except\<close> clause swallows both.
\<close>

fun result_text :: "json \<Rightarrow> string option" where
  "result_text (JObj args) =
     (case map_of args ''result'' of Some (JStr result_str) \<Rightarrow> Some result_str | _ \<Rightarrow> None)"
| "result_text args = None"

section \<open>eight-puzzle-game\<close>

definition EXPECTED_ANSWER :: string where
  "EXPECTED_ANSWER = ''EFPTGK''"

text \<open>\<^verbatim>\<open>answer = _extract_answer_from_text(t)\<close>; \<^verbatim>\<open>if answer: return answer\<close>\<close>

definition answer_if_any :: "string \<Rightarrow> string option" where
  "answer_if_any t =
     (let answer = extract_answer_from_text t in if truthy_str answer then answer else None)"

text \<open>The body of the inner loop of the first pass, for one tool call.\<close>

fun tool_call_answer :: "tool_call \<Rightarrow> string option" where
  "tool_call_answer NonDictCall = None"
| "tool_call_answer (ToolCall name arguments) =
     (if name = Some ''task_complete'' then
        (case decode_arguments arguments of
           None \<Rightarrow> None
         | Some args \<Rightarrow>
             (case result_text args of
                None \<Rightarrow> None
              | Some result_str \<Rightarrow> answer_if_any result_str))
      else None)"

text \<open>The body of the first loop, for one message.\<close>

fun message_tool_answer :: "message \<Rightarrow> string option" where
  "message_tool_answer NonDictMessage = None"
| "message_tool_answer (Message r tcs c) =
     (if r = Some ''assistant'' \<and> tcs \<noteq> None \<and> tcs \<noteq> Some []
      then first_some tool_call_answer (case tcs of Some l \<Rightarrow> l | None \<Rightarrow> [])
      else None)"

text \<open>The body of the second loop, for one message.\<close>

fun message_content_answer :: "message \<Rightarrow> string option" where
  "message_content_answer NonDictMessage = None"
| "message_content_answer (Message r tcs c) =
     (if r \<noteq> Some ''assistant'' then None
      else answer_if_any (case c of Some text \<Rightarrow> text | None \<Rightarrow> []))"

definition extract_answer_from_conversation :: "message list \<Rightarrow> string option" where
  "extract_answer_from_conversation conv =
     (case first_some message_tool_answer (rev conv) of
        Some answer \<Rightarrow> Some answer
      | None \<Rightarrow> first_some message_content_answer (rev conv))"

text \<open>\<^verbatim>\<open>test\<close> of eight-puzzle-game.\<close>

definition eight_puzzle_test :: "result \<Rightarrow> outcome" where
  "eight_puzzle_test r =
     (let conv = (case conversation r of Some c \<Rightarrow> c | None \<Rightarrow> []);
          task_completed = (status r = Some ''success'');
          direct = (case task_result r of
                      Some t \<Rightarrow> if t \<noteq> [] then extract_answer_from_text t else None
                    | None \<Rightarrow> None);
          output_answer = (if \<not> truthy_str direct then extract_answer_from_conversation conv
                           else direct)
      in case output_answer of
           Some answer \<Rightarrow>
             if answer = [] then
               \<lparr>passed = False, feedback = [NoValidAnswer],
                details = [(''task_completed'', JBool task_completed),
                           (''conversation_length'', JInt (int (length conv)))]\<rparr>
             else
               (let answer_correct = (normalize_answer answer = normalize_answer EXPECTED_ANSWER)
                in \<lparr>passed = (task_completed \<and> answer_correct),
                    feedback = [FoundAnswer answer, CodeLine answer_correct answer EXPECTED_ANSWER]
                               @ (if \<not> task_completed then [StatusNotSuccess] else []),
                    details = [(''task_completed'', JBool task_completed),
                               (''output_answer'', JStr answer),
                               (''answer_correct'', JBool answer_correct),
                               (''expected_answer'', JStr EXPECTED_ANSWER)]\<rparr>)
         | None \<Rightarrow>
             \<lparr>passed = False, feedback = [NoValidAnswer],
              details = [(''task_completed'', JBool task_completed),
                         (''conversation_length'', JInt (int (length conv)))]\<rparr>)"

section \<open>linear-regime-estimation\<close>

subsection \<open>Dates\<close>

text \<open>
  A \<^verbatim>\<open>datetime\<close> produced by the format \<^verbatim>\<open>%Y-%m-%d\<close> is at midnight: it is the triple
  (year, month, day), compared lexicographically as Python compares it.
  \<open>toordinal\<close> is the day number of the proleptic Gregorian calendar, so that
  \<^verbatim>\<open>(date1 - date2).days\<close> is a difference of ordinals.
\<close>

type_synonym date = "int \<times> int \<times> int"

definition is_leap :: "int \<Rightarrow> bool" where
  "is_leap y = (y mod 4 = 0 \<and> (y mod 100 \<noteq> 0 \<or> y mod 400 = 0))"

definition DAYS_IN_MONTH :: "int list" where
  "DAYS_IN_MONTH = [31, 28, 31, 30, 31, 30, 31, 31, 30, 31, 30, 31]"

definition days_in_month :: "int \<Rightarrow> int \<Rightarrow> int" where
  "days_in_month y m = (if m = 2 \<and> is_leap y then 29 else DAYS_IN_MONTH ! nat (m - 1))"

definition days_before_year :: "int \<Rightarrow> int" where
  "days_before_year year =
     (let y = year - 1 in y * 365 + y div 4 - y div 100 + y div 400)"

definition days_before_month :: "int \<Rightarrow> int \<Rightarrow> int" where
  "days_before_month y m =
     sum_list (take (nat (m - 1)) DAYS_IN_MONTH) + (if m > 2 \<and> is_leap y then 1 else 0)"

fun toordinal :: "date \<Rightarrow> int" where
  "toordinal (y, m, d) = days_before_year y + days_before_month y m + d"

text \<open>
  \<^verbatim>\<open>datetime.strptime(s, "%Y-%m-%d")\<close>: the text must match
  \<^verbatim>\<open>(\d\d\d\d)-(1[0-2]|0[1-9]|[1-9])-(3[0-1]|[1-2]\d|0[1-9]|[1-9]| [1-9])\<close> to its end
  and denote a day that exists, in a year from 1 on. \<open>None\<close> is \<^verbatim>\<open>ValueError\<close>.
\<close>

definition is_digit19 :: "char \<Rightarrow> bool" where
  "is_digit19 c = (c \<in> set ''123456789'')"

fun month_of :: "string \<Rightarrow> int option" where
  "month_of [a] = (if is_digit19 a then Some (digit_val a) else None)"
| "month_of [a, b] =
     (if a = CHR ''1'' \<and> b \<in> set ''012'' then Some (10 + digit_val b)
      else if a = CHR ''0'' \<and> is_digit19 b then Some (digit_val b)
      else None)"
| "month_of s = None"

fun day_of :: "string \<Rightarrow> int option" where
  "day_of [a] = (if is_digit19 a then Some (digit_val a) else None)"
| "day_of [a, b] =
     (if a = CHR ''3'' \<and> b \<in> set ''01'' then Some (30 + digit_val b)
      else if a \<in> set ''12'' \<and> is_digit b then Some (10 * digit_val a + digit_val b)
      else if a = CHR ''0'' \<and> is_digit19 b then Some (digit_val b)
      else if a = CHR '' '' \<and> is_digit19 b then Some (digit_val b)
      else None)"
| "day_of s = None"

definition strptime_ymd :: "string \<Rightarrow> date option" where
  "strptime_ymd s =
     (let ys = take 4 s in
      if length ys = 4 \<and> list_all is_digit ys then
        (case drop 4 s of
           [] \<Rightarrow> None
         | h # r1 \<Rightarrow>
             if h \<noteq> CHR ''-'' then None
             else
               (let ms = takeWhile (\<lambda>c. c \<noteq> CHR ''-'') r1 in
                case drop (length ms) r1 of
                  [] \<Rightarrow> None
                | h2 # ds \<Rightarrow>
                    (case (month_of ms, day_of ds) of
                       (Some m, Some d) \<Rightarrow>
                         (let y = decimal ys
                          in if 1 \<le> y \<and> d \<le> days_in_month y m then Some (y, m, d) else None)
                     | _ \<Rightarrow> None)))
      else None)"

text \<open>
  The exceptions a breakpoint can raise: \<^verbatim>\<open>AttributeError\<close> (with the type that has no
  \<^verbatim>\<open>strip\<close>) and \<^verbatim>\<open>ValueError\<close> (with the text that is no date).
\<close>

datatype py_error = AttributeError string | ValueError string

fun parse_date :: "json \<Rightarrow> py_error + date" where
  "parse_date (JStr date_str) =
     (case strptime_ymd (py_strip date_str) of
        Some d \<Rightarrow> Inr d
      | None \<Rightarrow> Inl (ValueError date_str))"
| "parse_date v = Inl (AttributeError (type_name v))"

text \<open>\<^verbatim>\<open>[_parse_date(bp) for bp in bps]\<close>: the first exception ends the comprehension.\<close>

fun parse_dates :: "json list \<Rightarrow> py_error + date list" where
  "parse_dates [] = Inr []"
| "parse_dates (bp # bps) =
     (case parse_date bp of
        Inl e \<Rightarrow> Inl e
      | Inr d \<Rightarrow> (case parse_dates bps of Inl e \<Rightarrow> Inl e | Inr ds \<Rightarrow> Inr (d # ds)))"

definition dates_within_tolerance :: "date \<Rightarrow> date \<Rightarrow> int \<Rightarrow> bool" where
  "dates_within_tolerance date1 date2 tolerance_days =
     (let delta = \<bar>toordinal date1 - toordinal date2\<bar> in delta \<le> tolerance_days)"

subsection \<open>The scanner\<close>

text \<open>\<^verbatim>\<open>json_obj = _extract_json_from_text(t)\<close>; \<^verbatim>\<open>if json_obj: return json_obj\<close>\<close>

definition json_if_any :: "string \<Rightarrow> (string \<times> json) list option" where
  "json_if_any t =
     (let json_obj = extract_json_from_text t in if truthy_dict json_obj then json_obj else None)"

fun tool_call_json :: "tool_call \<Rightarrow> (string \<times> json) list option" where
  "tool_call_json NonDictCall = None"
| "tool_call_json (ToolCall name arguments) =
     (if name = Some ''task_complete'' then
        (case decode_arguments arguments of
           None \<Rightarrow> None
         | Some args \<Rightarrow>
             (case result_text args of
                None \<Rightarrow> None
              | Some result_str \<Rightarrow> json_if_any result_str))
      else None)"

fun message_tool_json :: "message \<Rightarrow> (string \<times> json) list option" where
  "message_tool_json NonDictMessage = None"
| "message_tool_json (Message r tcs c) =
     (if r = Some ''assistant'' \<and> tcs \<noteq> None \<and> tcs \<noteq> Some []
      then first_some tool_call_json (case tcs of Some l \<Rightarrow> l | None \<Rightarrow> [])
      else None)"

fun message_content_json :: "message \<Rightarrow> (string \<times> json) list option" where
  "message_content_json NonDictMessage = None"
| "message_content_json (Message r tcs c) =
     (if r \<noteq> Some ''assistant'' then None
      else json_if_any (case c of Some text \<Rightarrow> text | None \<Rightarrow> []))"

definition extract_json_from_conversation :: "message list \<Rightarrow> (string \<times> json) list option" where
  "extract_json_from_conversation conv =
     (case first_some message_tool_json (rev conv) of
        Some json_obj \<Rightarrow> Some json_obj
      | None \<Rightarrow> first_some message_content_json (rev conv))"

subsection \<open>The grader\<close>

definition EXPECTED_REGIME_COUNT :: int where
  "EXPECTED_REGIME_COUNT = 3"

definition EXPECTED_BREAKPOINTS :: "string list" where
  "EXPECTED_BREAKPOINTS = [''2024-07-27'', ''2025-02-16'']"

definition TOLERANCE_DAYS :: int where
  "TOLERANCE_DAYS = 7"

text \<open>\<^verbatim>\<open>isinstance(v, int)\<close>: \<^verbatim>\<open>bool\<close> is a subclass of \<^verbatim>\<open>int\<close>.\<close>

fun is_int :: "json \<Rightarrow> bool" where
  "is_int (JInt i) = True"
| "is_int (JBool b) = True"
| "is_int v = False"

text \<open>\<^verbatim>\<open>v == n\<close> for a value that passed \<^verbatim>\<open>isinstance(v, int)\<close>.\<close>

fun int_equals :: "json \<Rightarrow> int \<Rightarrow> bool" where
  "int_equals (JInt i) n = (i = n)"
| "int_equals (JBool b) n = ((if b then 1 else 0) = n)"
| "int_equals v n = False"

text \<open>
  The breakpoint check of \<^verbatim>\<open>test\<close> (``Check breakpoints''): the verdict on the field and
  its feedback. The \<^verbatim>\<open>except ValueError\<close> clause turns a \<^verbatim>\<open>ValueError\<close> into a failed
  field; any other exception leaves \<^verbatim>\<open>test\<close>.
\<close>

definition check_breakpoints :: "json list \<Rightarrow> py_error + (bool \<times> bp_feedback)" where
  "check_breakpoints breakpoints =
     (if length breakpoints \<noteq> length EXPECTED_BREAKPOINTS then
        Inr (False, CountMismatch (length EXPECTED_BREAKPOINTS) (length breakpoints))
      else
        (case (case parse_dates (map JStr EXPECTED_BREAKPOINTS) of
                 Inl e \<Rightarrow> Inl e
               | Inr expected_dates \<Rightarrow>
                   (case parse_dates breakpoints of
                      Inl e \<Rightarrow> Inl e
                    | Inr output_dates \<Rightarrow> Inr (sort expected_dates, sort output_dates))) of
           Inl (ValueError date_str) \<Rightarrow> Inr (False, DateParseError date_str)
         | Inl (AttributeError t) \<Rightarrow> Inl (AttributeError t)
         | Inr (expected_dates, output_dates) \<Rightarrow>
             (let all_within_tolerance =
                    list_all (\<lambda>(exp_date, out_date).
                                dates_within_tolerance exp_date out_date TOLERANCE_DAYS)
                      (zip expected_dates output_dates)
              in if all_within_tolerance then Inr (True, AllWithinTolerance)
                 else Inr (False,
                        Mismatches
                          (map (\<lambda>(exp_date, out_date).
                                  (exp_date, out_date, \<bar>toordinal exp_date - toordinal out_date\<bar>))
                             (filter (\<lambda>(exp_date, out_date).
                                        \<bar>toordinal exp_date - toordinal out_date\<bar> > TOLERANCE_DAYS)
                                (zip expected_dates output_dates)))))))"

text \<open>\<^verbatim>\<open>test\<close> from ``Check required fields'' on, for the payload that was found.\<close>

definition grade_json :: "bool \<Rightarrow> (string \<times> json) list \<Rightarrow> py_error + outcome" where
  "grade_json task_completed output_json =
     (case map_of output_json ''regime_count'' of
        None \<Rightarrow>
          Inr \<lparr>passed = False, feedback = [MissingField ''regime_count''],
               details = [(''task_completed'', JBool task_completed),
                          (''output_json'', JObj output_json)]\<rparr>
      | Some regime_count \<Rightarrow>
          (case map_of output_json ''breakpoints'' of
             None \<Rightarrow>
               Inr \<lparr>passed = False, feedback = [MissingField ''breakpoints''],
                    details = [(''task_completed'', JBool task_completed),
                               (''output_json'', JObj output_json)]\<rparr>
           | Some breakpoints \<Rightarrow>
               if \<not> is_int regime_count then
                 Inr \<lparr>passed = False, feedback = [MustBeInteger (type_name regime_count)],
                      details = [(''task_completed'', JBool task_completed),
                                 (''output_json'', JObj output_json)]\<rparr>
               else
                 (case breakpoints of
                    JList bps \<Rightarrow>
                      (let regime_count_correct = int_equals regime_count EXPECTED_REGIME_COUNT
                       in case check_breakpoints bps of
                            Inl e \<Rightarrow> Inl e
                          | Inr (breakpoints_correct, breakpoint_feedback) \<Rightarrow>
                              Inr \<lparr>passed = (task_completed \<and> regime_count_correct
                                              \<and> breakpoints_correct),
                                   feedback =
                                     [FoundJson output_json,
                                      RegimeCountLine regime_count_correct regime_count
                                        EXPECTED_REGIME_COUNT,
                                      BreakpointLine breakpoint_feedback]
                                     @ (if \<not> task_completed then [StatusNotSuccess] else []),
                                   details =
                                     [(''task_completed'', JBool task_completed),
                                      (''output_json'', JObj output_json),
                                      (''regime_count_correct'', JBool regime_count_correct),
                                      (''breakpoints_correct'', JBool breakpoints_correct),
                                      (''expected_regime_count'', JInt EXPECTED_REGIME_COUNT),
                                      (''expected_breakpoints'',
                                         JList (map JStr EXPECTED_BREAKPOINTS)),
                                      (''tolerance_days'', JInt TOLERANCE_DAYS)]\<rparr>)
                  | _ \<Rightarrow>
                      Inr \<lparr>passed = False, feedback = [MustBeList (type_name breakpoints)],
                           details = [(''task_completed'', JBool task_completed),
                                      (''output_json'', JObj output_json)]\<rparr>)))"

text \<open>\<^verbatim>\<open>test\<close> of linear-regime-estimation. \<open>Inl\<close> is an exception that leaves it.\<close>

definition linear_regime_test :: "result \<Rightarrow> py_error + outcome" where
  "linear_regime_test r =
     (let conv = (case conversation r of Some c \<Rightarrow> c | None \<Rightarrow> []);
          task_completed = (status r = Some ''success'');
          direct = (case task_result r of
                      Some t \<Rightarrow> if t \<noteq> [] then extract_json_from_text t else None
                    | None \<Rightarrow> None);
          output_json = (if \<not> truthy_dict direct then extract_json_from_conversation conv
                         else direct)
      in if \<not> truthy_dict output_json then
           Inr \<lparr>passed = False, feedback = [NoValidJson],
                details = [(''task_completed'', JBool task_completed),
                           (''conversation_length'', JInt (int (length conv)))]\<rparr>
         else grade_json task_completed (case output_json of Some d \<Rightarrow> d | None \<Rightarrow> []))"

section \<open>The sources in order of precedence\<close>

text \<open>
  The texts a scanner hands to the extractor, listed in the order in which it reaches
  them. Both graders decode tool calls in the same way, so the lists serve both.
  \<open>call_result_texts\<close>: the \<^verbatim>\<open>result\<close> of a \<^verbatim>\<open>task_complete\<close> call, when its arguments
  decode to a dictionary that holds one as a string.
\<close>

fun call_result_texts :: "tool_call \<Rightarrow> string list" where
  "call_result_texts NonDictCall = []"
| "call_result_texts (ToolCall name arguments) =
     (if name = Some ''task_complete'' then
        (case decode_arguments arguments of
           None \<Rightarrow> []
         | Some args \<Rightarrow> (case result_text args of None \<Rightarrow> [] | Some t \<Rightarrow> [t]))
      else [])"

fun tool_result_texts :: "message \<Rightarrow> string list" where
  "tool_result_texts NonDictMessage = []"
| "tool_result_texts (Message r tcs c) =
     (if r = Some ''assistant''
      then concat (map call_result_texts (case tcs of Some l \<Rightarrow> l | None \<Rightarrow> []))
      else [])"

fun content_texts :: "message \<Rightarrow> string list" where
  "content_texts NonDictMessage = []"
| "content_texts (Message r tcs c) =
     (if r = Some ''assistant'' then [case c of Some text \<Rightarrow> text | None \<Rightarrow> []] else [])"

text \<open>
  Two passes over the transcript: the tool-call results of all messages, newest message
  first, and after them the contents of all messages, newest first.
\<close>

definition two_pass_texts :: "message list \<Rightarrow> string list" where
  "two_pass_texts conv =
     concat (map tool_result_texts (rev conv)) @ concat (map content_texts (rev conv))"

text \<open>
  One pass, message by message from the newest: the tool-call results of a message and
  then its content, before the next older message.
\<close>

definition per_message_texts :: "message list \<Rightarrow> string list" where
  "per_message_texts conv = concat (map (\<lambda>m. tool_result_texts m @ content_texts m) (rev conv))"

text \<open>All sources of a record: the direct result, then the transcript in two passes.\<close>

definition source_texts :: "result \<Rightarrow> string list" where
  "source_texts r =
     (case task_result r of Some t \<Rightarrow> [t] | None \<Rightarrow> [])
     @ two_pass_texts (case conversation r of Some c \<Rightarrow> c | None \<Rightarrow> [])"

section \<open>Field validation\<close>

text \<open>
  What the grader of linear-regime-estimation establishes about each field of a payload,
  stated field by field: \<open>regime_count\<close> is present, an integer, and the expected one;
  \<open>breakpoints\<close> is present, a list, and its check succeeds. A payload is well typed
  when both fields are present with the types the grader asks for, which is when the
  grader reaches the comparison of values.
\<close>

definition regime_count_valid :: "(string \<times> json) list \<Rightarrow> bool" where
  "regime_count_valid d =
     (case map_of d ''regime_count'' of
        Some v \<Rightarrow> is_int v \<and> int_equals v EXPECTED_REGIME_COUNT
      | None \<Rightarrow> False)"

definition breakpoints_valid :: "(string \<times> json) list \<Rightarrow> bool" where
  "breakpoints_valid d =
     (case map_of d ''breakpoints'' of
        Some (JList bps) \<Rightarrow> (case check_breakpoints bps of Inr (ok, fb) \<Rightarrow> ok | Inl e \<Rightarrow> False)
      | _ \<Rightarrow> False)"

definition well_typed :: "(string \<times> json) list \<Rightarrow> bool" where
  "well_typed d =
     (case (map_of d ''regime_count'', map_of d ''breakpoints'') of
        (Some v, Some (JList bps)) \<Rightarrow> is_int v
      | _ \<Rightarrow> False)"

text \<open>
  Sorted positional pairing: the \<open>i\<close>-th smallest expected date with the \<open>i\<close>-th
  smallest actual date, and their distance in days.
\<close>

definition sorted_pairs :: "date list \<Rightarrow> date list \<Rightarrow> (date \<times> date \<times> int) list" where
  "sorted_pairs es ds =
     map (\<lambda>i. (sort es ! i, sort ds ! i, \<bar>toordinal (sort es ! i) - toordinal (sort ds ! i)\<bar>))
       [0..<length ds]"

section \<open>Properties of the scanners\<close>

subsection \<open>Loops that return at the first success\<close>

lemma first_some_append:
  "first_some f (xs @ ys) = (case first_some f xs of Some y \<Rightarrow> Some y | None \<Rightarrow> first_some f ys)"
  by (induction xs) (auto split: option.splits)

lemma first_some_concat_map:
  "first_some f (concat (map g xs)) = first_some (\<lambda>x. first_some f (g x)) xs"
  by (induction xs) (auto simp: first_some_append split: option.splits)

lemma first_some_None_iff: "first_some f xs = None \<longleftrightarrow> (\<forall>x \<in> set xs. f x = None)"
  by (induction xs) (auto split: option.splits)

lemma first_some_SomeD: "first_some f xs = Some y \<Longrightarrow> \<exists>x \<in> set xs. f x = Some y"
  by (induction xs) (auto split: option.splits)

lemma answer_if_any_Some_iff:
  "answer_if_any t = Some a \<longleftrightarrow> extract_answer_from_text t = Some a \<and> a \<noteq> []"
  by (cases "extract_answer_from_text t") (auto simp: answer_if_any_def Let_def)

lemma answer_if_any_None_iff:
  "answer_if_any t = None \<longleftrightarrow> \<not> truthy_str (extract_answer_from_text t)"
  by (cases "extract_answer_from_text t") (auto simp: answer_if_any_def Let_def)

lemma answer_if_any_Nil [simp]: "answer_if_any [] = None"
  by (simp add: answer_if_any_def extract_answer_from_text_def)

lemma json_if_any_Some_iff:
  "json_if_any t = Some d \<longleftrightarrow> extract_json_from_text t = Some d \<and> d \<noteq> []"
  by (cases "extract_json_from_text t") (auto simp: json_if_any_def Let_def)

lemma json_if_any_None_iff:
  "json_if_any t = None \<longleftrightarrow> \<not> truthy_dict (extract_json_from_text t)"
  by (cases "extract_json_from_text t") (auto simp: json_if_any_def Let_def)

lemma json_if_any_Nil [simp]: "json_if_any [] = None"
  by (simp add: json_if_any_def extract_json_from_text_def json_findall_def)

lemma tool_call_answer_texts:
  "tool_call_answer tc = first_some answer_if_any (call_result_texts tc)"
  by (cases tc) (auto split: option.splits)

lemma message_tool_answer_texts:
  "message_tool_answer m = first_some answer_if_any (tool_result_texts m)"
  by (cases m) (auto simp: first_some_concat_map tool_call_answer_texts [symmetric] split: option.splits)

lemma message_content_answer_texts:
  "message_content_answer m = first_some answer_if_any (content_texts m)"
  by (cases m) (auto split: option.splits)

lemma scan_answer_two_pass:
  "extract_answer_from_conversation conv = first_some answer_if_any (two_pass_texts conv)"
proof -
  have tools: "first_some answer_if_any (concat (map tool_result_texts (rev conv)))
      = first_some message_tool_answer (rev conv)"
    by (simp add: first_some_concat_map message_tool_answer_texts [symmetric])
  have contents: "first_some answer_if_any (concat (map content_texts (rev conv)))
      = first_some message_content_answer (rev conv)"
    by (simp add: first_some_concat_map message_content_answer_texts [symmetric])
  show ?thesis
    unfolding extract_answer_from_conversation_def two_pass_texts_def first_some_append
      tools contents ..
qed

lemma tool_call_json_texts:
  "tool_call_json tc = first_some json_if_any (call_result_texts tc)"
  by (cases tc) (auto split: option.splits)

lemma message_tool_json_texts:
  "message_tool_json m = first_some json_if_any (tool_result_texts m)"
  by (cases m) (auto simp: first_some_concat_map tool_call_json_texts [symmetric] split: option.splits)

lemma message_content_json_texts:
  "message_content_json m = first_some json_if_any (content_texts m)"
  by (cases m) (auto split: option.splits)

lemma scan_json_two_pass:
  "extract_json_from_conversation conv = first_some json_if_any (two_pass_texts conv)"
proof -
  have tools: "first_some json_if_any (concat (map tool_result_texts (rev conv)))
      = first_some message_tool_json (rev conv)"
    by (simp add: first_some_concat_map message_tool_json_texts [symmetric])
  have contents: "first_some json_if_any (concat (map content_texts (rev conv)))
      = first_some message_content_json (rev conv)"
    by (simp add: first_some_concat_map message_content_json_texts [symmetric])
  show ?thesis
    unfolding extract_json_from_conversation_def two_pass_texts_def first_some_append
      tools contents ..
qed

subsection \<open>The graders in terms of their sources\<close>

lemma first_some_answer_nonempty:
  "first_some answer_if_any ts = Some a \<Longrightarrow> a \<noteq> []"
  by (auto dest!: first_some_SomeD simp: answer_if_any_Some_iff)

lemma first_some_json_nonempty:
  "first_some json_if_any ts = Some d \<Longrightarrow> d \<noteq> []"
  by (auto dest!: first_some_SomeD simp: json_if_any_Some_iff)

lemma chosen_answer_sources:
  "(let direct = (case task_result r of
                    Some t \<Rightarrow> if t \<noteq> [] then extract_answer_from_text t else None
                  | None \<Rightarrow> None)
    in if \<not> truthy_str direct
       then extract_answer_from_conversation (case conversation r of Some c \<Rightarrow> c | None \<Rightarrow> [])
       else direct)
   = first_some answer_if_any (source_texts r)"
proof (cases "task_result r")
  case None
  then show ?thesis by (simp add: source_texts_def scan_answer_two_pass)
next
  case (Some t)
  show ?thesis
  proof (cases "answer_if_any t")
    case None
    then have "\<not> truthy_str (extract_answer_from_text t)"
      by (simp add: answer_if_any_None_iff)
    with Some None show ?thesis
      by (simp add: source_texts_def scan_answer_two_pass)
  next
    case (Some a)
    then have "extract_answer_from_text t = Some a" "a \<noteq> []"
      by (simp_all add: answer_if_any_Some_iff)
    moreover from this have "t \<noteq> []"
      by (auto simp: extract_answer_from_text_def)
    ultimately show ?thesis using \<open>task_result r = Some t\<close> Some
      by (simp add: source_texts_def)
  qed
qed

lemma eight_puzzle_test_sources:
  "eight_puzzle_test r =
     (case first_some answer_if_any (source_texts r) of
        None \<Rightarrow>
          \<lparr>passed = False, feedback = [NoValidAnswer],
           details = [(''task_completed'', JBool (status r = Some ''success'')),
                      (''conversation_length'',
                         JInt (int (length (case conversation r of Some c \<Rightarrow> c | None \<Rightarrow> []))))]\<rparr>
      | Some answer \<Rightarrow>
          \<lparr>passed = (status r = Some ''success''
                      \<and> normalize_answer answer = normalize_answer EXPECTED_ANSWER),
           feedback = [FoundAnswer answer,
                       CodeLine (normalize_answer answer = normalize_answer EXPECTED_ANSWER)
                         answer EXPECTED_ANSWER]
                      @ (if status r \<noteq> Some ''success'' then [StatusNotSuccess] else []),
           details = [(''task_completed'', JBool (status r = Some ''success'')),
                      (''output_answer'', JStr answer),
                      (''answer_correct'',
                         JBool (normalize_answer answer = normalize_answer EXPECTED_ANSWER)),
                      (''expected_answer'', JStr EXPECTED_ANSWER)]\<rparr>)"
proof (cases "first_some answer_if_any (source_texts r)")
  case None
  then show ?thesis
    using chosen_answer_sources [of r] by (simp add: eight_puzzle_test_def Let_def)
next
  case (Some a)
  moreover from Some have "a \<noteq> []" by (rule first_some_answer_nonempty)
  ultimately show ?thesis
    using chosen_answer_sources [of r] by (simp add: eight_puzzle_test_def Let_def)
qed

lemma chosen_json_sources:
  "(let direct = (case task_result r of
                    Some t \<Rightarrow> if t \<noteq> [] then extract_json_from_text t else None
                  | None \<Rightarrow> None)
    in if \<not> truthy_dict direct
       then extract_json_from_conversation (case conversation r of Some c \<Rightarrow> c | None \<Rightarrow> [])
       else direct)
   = first_some json_if_any (source_texts r)"
proof (cases "task_result r")
  case None
  then show ?thesis by (simp add: source_texts_def scan_json_two_pass)
next
  case (Some t)
  show ?thesis
  proof (cases "json_if_any t")
    case None
    then have "\<not> truthy_dict (extract_json_from_text t)"
      by (simp add: json_if_any_None_iff)
    with Some None show ?thesis
      by (simp add: source_texts_def scan_json_two_pass)
  next
    case (Some d)
    then have "extract_json_from_text t = Some d" "d \<noteq> []"
      by (simp_all add: json_if_any_Some_iff)
    moreover from this have "t \<noteq> []"
      by (auto simp: extract_json_from_text_def json_findall_def)
    ultimately show ?thesis using \<open>task_result r = Some t\<close> Some
      by (simp add: source_texts_def)
  qed
qed

lemma linear_regime_test_sources:
  "linear_regime_test r =
     (case first_some json_if_any (source_texts r) of
        None \<Rightarrow>
          Inr \<lparr>passed = False, feedback = [NoValidJson],
               details = [(''task_completed'', JBool (status r = Some ''success'')),
                          (''conversation_length'',
                             JInt (int (length (case conversation r of Some c \<Rightarrow> c | None \<Rightarrow> []))))]\<rparr>
      | Some output_json \<Rightarrow> grade_json (status r = Some ''success'') output_json)"
proof (cases "first_some json_if_any (source_texts r)")
  case None
  then show ?thesis
    using chosen_json_sources [of r] by (simp add: linear_regime_test_def Let_def)
next
  case (Some d)
  moreover from Some have "d \<noteq> []" by (rule first_some_json_nonempty)
  ultimately show ?thesis
    using chosen_json_sources [of r] by (simp add: linear_regime_test_def Let_def)
qed

subsection \<open>Shadowing and grading\<close>

lemma first_some_shadow:
  assumes "\<forall>s \<in> set higher. f s = None" and "f t = Some a"
  shows "first_some f (higher @ t # lower) = Some a"
proof -
  from assms(1) have "first_some f higher = None" by (simp add: first_some_None_iff)
  with assms(2) show ?thesis by (simp add: first_some_append)
qed

lemma grade_json_passed:
  "grade_json tc d = Inr out \<Longrightarrow>
     passed out = (tc \<and> regime_count_valid d \<and> breakpoints_valid d)
     \<and> map_of (details out) ''task_completed'' = Some (JBool tc)"
  by (auto simp: grade_json_def regime_count_valid_def breakpoints_valid_def Let_def
      split: option.splits json.splits sum.splits prod.splits if_splits)

lemma grade_json_ill_typed:
  "\<not> well_typed d \<Longrightarrow>
     \<exists>fb. grade_json tc d
       = Inr \<lparr>passed = False, feedback = fb,
              details = [(''task_completed'', JBool tc), (''output_json'', JObj d)]\<rparr>"
  by (auto simp: grade_json_def well_typed_def split: option.splits json.splits)

lemma grade_json_well_typed:
  "well_typed d \<Longrightarrow> grade_json tc d = Inr out \<Longrightarrow>
     details out
       = [(''task_completed'', JBool tc), (''output_json'', JObj d),
          (''regime_count_correct'', JBool (regime_count_valid d)),
          (''breakpoints_correct'', JBool (breakpoints_valid d)),
          (''expected_regime_count'', JInt EXPECTED_REGIME_COUNT),
          (''expected_breakpoints'', JList (map JStr EXPECTED_BREAKPOINTS)),
          (''tolerance_days'', JInt TOLERANCE_DAYS)]"
  by (auto simp: grade_json_def well_typed_def regime_count_valid_def breakpoints_valid_def Let_def
      split: option.splits json.splits sum.splits prod.splits if_splits)

subsection \<open>The breakpoint check\<close>

lemma parse_dates_length: "parse_dates bps = Inr ds \<Longrightarrow> length ds = length bps"
  by (induction bps arbitrary: ds) (auto split: sum.splits)

lemma zip_by_index:
  "length xs = length ys \<Longrightarrow> zip xs ys = map (\<lambda>i. (xs ! i, ys ! i)) [0..<length ys]"
  by (rule nth_equalityI) simp_all

lemma expected_dates:
  "parse_dates (map JStr EXPECTED_BREAKPOINTS) = Inr [(2024, 7, 27), (2025, 2, 16)]"
  by code_simp

lemma check_breakpoints_parsed:
  assumes len: "length bps = length EXPECTED_BREAKPOINTS"
    and ds: "parse_dates bps = Inr ds"
  shows "check_breakpoints bps =
     Inr (list_all (\<lambda>(e, out, delta). delta \<le> TOLERANCE_DAYS)
            (sorted_pairs [(2024, 7, 27), (2025, 2, 16)] ds),
          if list_all (\<lambda>(e, out, delta). delta \<le> TOLERANCE_DAYS)
               (sorted_pairs [(2024, 7, 27), (2025, 2, 16)] ds)
          then AllWithinTolerance
          else Mismatches (filter (\<lambda>(e, out, delta). delta > TOLERANCE_DAYS)
                             (sorted_pairs [(2024, 7, 27), (2025, 2, 16)] ds)))"
proof -
  let ?es = "[(2024, 7, 27), (2025, 2, 16)] :: date list"
  from ds len have l: "length ds = 2"
    by (simp add: parse_dates_length EXPECTED_BREAKPOINTS_def)
  then have "length (sort ?es) = length (sort ds)" by simp
  from zip_by_index [OF this]
  have z: "zip (sort ?es) (sort ds) = map (\<lambda>i. (sort ?es ! i, sort ds ! i)) [0..<length ds]"
    by simp
  have all: "list_all (\<lambda>(exp_date, out_date). dates_within_tolerance exp_date out_date TOLERANCE_DAYS)
               (zip (sort ?es) (sort ds))
      = list_all (\<lambda>(e, out, delta). delta \<le> TOLERANCE_DAYS) (sorted_pairs ?es ds)"
    unfolding z sorted_pairs_def
    by (simp add: list_all_iff dates_within_tolerance_def)
  have mis: "map (\<lambda>(exp_date, out_date).
                (exp_date, out_date, \<bar>toordinal exp_date - toordinal out_date\<bar>))
             (filter (\<lambda>(exp_date, out_date).
                        \<bar>toordinal exp_date - toordinal out_date\<bar> > TOLERANCE_DAYS)
                (zip (sort ?es) (sort ds)))
      = filter (\<lambda>(e, out, delta). delta > TOLERANCE_DAYS) (sorted_pairs ?es ds)"
    unfolding z sorted_pairs_def
    by (simp add: filter_map comp_def)
  show ?thesis
    unfolding check_breakpoints_def expected_dates ds
    by (simp only: len all mis Let_def sum.case prod.case if_False simp_thms) auto
qed

lemma check_breakpoints_value_error:
  assumes len: "length bps = length EXPECTED_BREAKPOINTS"
    and ds: "parse_dates bps = Inl (ValueError date_str)"
  shows "check_breakpoints bps = Inr (False, DateParseError date_str)"
  unfolding check_breakpoints_def expected_dates ds
  by (simp only: len Let_def sum.case prod.case py_error.case if_False simp_thms)

subsection \<open>The JSON decoder\<close>

text \<open>
  The decoder consumes its input, so the bound on the depth of its calls is never
  reached: any larger bound gives the same result (\<open>json_loads_fuel\<close>). A text that
  starts with an opening brace decodes to an object or not at all, so \<open>loads_object\<close>
  drops nothing, and every text the extractor decodes starts with one.
\<close>

lemma length_skip_ws: "length (skip_ws s) \<le> length s"
  by (simp add: skip_ws_def length_dropWhile_le)

lemma skip_ws_Cons_length: "skip_ws r = d # ds \<Longrightarrow> length ds < length r"
  using length_skip_ws [of r] by simp

lemma scanstring_from_consumes:
  "scanstring_from k s = Some (str, r) \<Longrightarrow> length r < length s"
proof (induction k s arbitrary: str r rule: scanstring_from.induct)
  case (1 k)
  then show ?case by simp
next
  case (2 k c cs)
  then show ?case by fastforce
next
  case (3 c cs)
  then show ?case
    by (fastforce split: if_splits list.splits option.splits prod.splits)
qed

lemma scanstring_consumes: "scanstring s = Some (str, r) \<Longrightarrow> length r < length s"
  unfolding scanstring_def by (rule scanstring_from_consumes)

lemma match_number_consumes: "match_number s = Some (v, r) \<Longrightarrow> length r < length s"
  by (auto simp: match_number_def Let_def split: list.splits if_splits)

lemma match_constant_consumes: "match_constant s = Some (v, r) \<Longrightarrow> length r < length s"
  by (cases s) (auto simp: match_constant_def split: if_splits)


lemma scan_once_consumes:
  "scan_once n s = Some (v, r) \<Longrightarrow> length r < length s"
  "array_items n s = Some (vs, r') \<Longrightarrow> length r' < length s"
  "object_items n s = Some (kvs, r'') \<Longrightarrow> length r'' < length s"
proof (induction n s and n s and n s arbitrary: v r and vs r' and kvs r''
    rule: scan_once_array_items_object_items.induct)
  case (1 s)
  then show ?case by simp
next
  case (2 n)
  then show ?case by simp
next
  case (3 n c cs)
  show ?case
  proof (cases "c = CHR 0x22")
    case True
    with "3.prems" show ?thesis
      by (auto dest!: scanstring_consumes)
  next
    case nq: False
    show ?thesis
    proof (cases "c = CHR ''{''")
      case True
      with nq "3.prems" "3.IH"(1) show ?thesis
        using length_skip_ws [of cs]
        by (fastforce split: list.splits if_splits)
    next
      case nb: False
      show ?thesis
      proof (cases "c = CHR ''[''")
        case True
        with nq nb "3.prems" "3.IH"(2) show ?thesis
          using length_skip_ws [of cs]
          by (fastforce split: list.splits if_splits)
      next
        case False
        with nq nb "3.prems" show ?thesis
          by (auto split: if_splits option.splits
              dest: match_number_consumes match_constant_consumes)
      qed
    qed
  qed
next
  case (4 s)
  then show ?case by simp
next
  case (5 n s)
  from "5.prems" obtain v r where sc: "scan_once n s = Some (v, r)"
    by (auto split: option.splits)
  from "5.IH"(1) [OF sc] have lr: "length r < length s" .
  from "5.prems" sc obtain d ds where sk: "skip_ws r = d # ds"
    by (auto split: list.splits)
  from skip_ws_Cons_length [OF sk] have lds: "length ds < length r" .
  show ?case
  proof (cases "d = CHR '']''")
    case True
    with "5.prems" sc sk lr lds show ?thesis by auto
  next
    case False
    with "5.prems" sc sk obtain vs' where
      rec: "array_items n (skip_ws ds) = Some (vs', r')" and "d = CHR '',''"
      by (auto split: if_splits)
    from "5.IH"(2) [OF sc refl sk False \<open>d = CHR '',''\<close> rec]
    have "length r' < length (skip_ws ds)" .
    with length_skip_ws [of ds] lr lds show ?thesis by simp
  qed
next
  case (6 s)
  then show ?case by simp
next
  case (7 n s)
  from "7.prems" obtain key r where ss: "scanstring s = Some (key, r)"
    by (auto split: option.splits)
  from scanstring_consumes [OF ss] have lr: "length r < length s" .
  from "7.prems" ss obtain d ds where sk: "skip_ws r = d # ds" and dc: "d = CHR '':''"
    by (auto split: list.splits if_splits)
  from skip_ws_Cons_length [OF sk] have lds: "length ds < length r" .
  from "7.prems" ss sk dc obtain v r2 where sc: "scan_once n (skip_ws ds) = Some (v, r2)"
    by (auto split: option.splits)
  have ndc: "\<not> d \<noteq> CHR '':''" using dc by simp
  from "7.IH"(1) [OF ss refl sk ndc sc] have lr2: "length r2 < length (skip_ws ds)" .
  from "7.prems" ss sk dc sc obtain e es where sk2: "skip_ws r2 = e # es"
    by (auto split: list.splits)
  from skip_ws_Cons_length [OF sk2] have les: "length es < length r2" .
  show ?case
  proof (cases "e = CHR ''}''")
    case True
    with "7.prems" ss sk dc sc sk2 lr lds lr2 les length_skip_ws [of ds] show ?thesis by auto
  next
    case False
    with "7.prems" ss sk dc sc sk2 obtain q qs kvs' where
      ec: "e = CHR '',''" and sk3: "skip_ws es = q # qs" and qc: "q = CHR 0x22"
      and rec: "object_items n qs = Some (kvs', r'')"
      by (auto split: if_splits list.splits)
    from "7.IH"(2) [OF ss refl sk ndc sc refl sk2 False ec sk3 qc rec]
    have "length r'' < length qs" .
    with skip_ws_Cons_length [OF sk3] lr lds lr2 les length_skip_ws [of ds] show ?thesis by simp
  qed
qed

lemma fuel_step:
  "(2 * length s \<le> n \<longrightarrow> scan_once (Suc n) s = scan_once n s)
   \<and> (2 * length s + 1 \<le> n \<longrightarrow> array_items (Suc n) s = array_items n s)
   \<and> (2 * length s + 1 \<le> n \<longrightarrow> object_items (Suc n) s = object_items n s)"
proof (induction n arbitrary: s)
  case 0
  then show ?case by simp
next
  case (Suc n)
  have scan: "scan_once (Suc n) t = scan_once n t" if "2 * length t \<le> n" for t
    using Suc [of t] that by simp
  have arr: "array_items (Suc n) t = array_items n t" if "2 * length t + 1 \<le> n" for t
    using Suc [of t] that by simp
  have obj: "object_items (Suc n) t = object_items n t" if "2 * length t + 1 \<le> n" for t
    using Suc [of t] that by simp
  have g1: "scan_once (Suc (Suc n)) s = scan_once (Suc n) s" if b: "2 * length s \<le> Suc n"
  proof (cases s)
    case Nil
    then show ?thesis by simp
  next
    case (Cons c cs)
    have o: "object_items (Suc n) ds = object_items n ds" if "skip_ws cs = d # ds" for d ds
      using skip_ws_Cons_length [OF that] b Cons by (intro obj) simp
    have a: "array_items (Suc n) (d # ds) = array_items n (d # ds)" if "skip_ws cs = d # ds" for d ds
      using length_skip_ws [of cs] that b Cons by (intro arr) simp
    show ?thesis
      unfolding Cons scan_once.simps
      by (simp add: o a split: list.split del: array_items.simps object_items.simps)
  qed
  have g2: "array_items (Suc (Suc n)) s = array_items (Suc n) s" if b: "2 * length s + 1 \<le> Suc n"
  proof -
    from b have sc: "scan_once (Suc n) s = scan_once n s" by (intro scan) simp
    have rec: "array_items (Suc n) (skip_ws ds) = array_items n (skip_ws ds)"
      if "scan_once n s = Some (v, r)" "skip_ws r = d # ds" for v r d ds
      using scan_once_consumes(1) [OF that(1)] skip_ws_Cons_length [OF that(2)]
        length_skip_ws [of ds] b
      by (intro arr) simp
    show ?thesis
      by (simp only: array_items.simps(2) [of "Suc n" s] array_items.simps(2) [of n s] sc)
        (simp add: rec split: option.split list.split prod.split
          del: array_items.simps object_items.simps scan_once.simps)
  qed
  have g3: "object_items (Suc (Suc n)) s = object_items (Suc n) s" if b: "2 * length s + 1 \<le> Suc n"
  proof -
    have sc: "scan_once (Suc n) (skip_ws ds) = scan_once n (skip_ws ds)"
      if "scanstring s = Some (key, r)" "skip_ws r = d # ds" for key r d ds
      using scanstring_consumes [OF that(1)] skip_ws_Cons_length [OF that(2)]
        length_skip_ws [of ds] b
      by (intro scan) simp
    have rec: "object_items (Suc n) qs = object_items n qs"
      if "scanstring s = Some (key, r)" "skip_ws r = d # ds"
        "scan_once n (skip_ws ds) = Some (v, r2)" "skip_ws r2 = e # es" "skip_ws es = q # qs"
      for key r d ds v r2 e es q qs
      using scanstring_consumes [OF that(1)] skip_ws_Cons_length [OF that(2)]
        length_skip_ws [of ds] scan_once_consumes(1) [OF that(3)]
        skip_ws_Cons_length [OF that(4)] skip_ws_Cons_length [OF that(5)] b
      by (intro obj) simp
    show ?thesis
      by (simp only: object_items.simps(2) [of "Suc n" s] object_items.simps(2) [of n s])
        (auto simp: sc rec split: option.split list.split prod.split
          simp del: array_items.simps object_items.simps scan_once.simps)
  qed
  from g1 g2 g3 show ?case by blast
qed

lemma scan_once_fuel:
  "2 * length s \<le> n \<Longrightarrow> scan_once (n + k) s = scan_once n s"
proof (induction k)
  case 0
  then show ?case by simp
next
  case (Suc k)
  then have "2 * length s \<le> n + k" by simp
  with fuel_step [of s "n + k"] Suc show ?case by simp
qed

lemma json_loads_fuel:
  assumes "2 * length s + 2 \<le> n"
  shows "(case scan_once n (skip_ws s) of
            None \<Rightarrow> None
          | Some (obj, rest) \<Rightarrow> if skip_ws rest = [] then Some obj else None) = json_loads s"
proof -
  have b: "2 * length (skip_ws s) \<le> 2 * length s + 2"
    using length_skip_ws [of s] by simp
  from assms obtain k where n: "n = (2 * length s + 2) + k"
    using le_Suc_ex by blast
  have "scan_once n (skip_ws s) = scan_once (2 * length s + 2) (skip_ws s)"
    unfolding n by (rule scan_once_fuel [OF b])
  then show ?thesis by (simp add: json_loads_def)
qed

lemma json_loads_brace_is_object:
  "json_loads (CHR ''{'' # cs) = Some v \<Longrightarrow> \<exists>d. v = JObj d"
  by (auto simp: json_loads_def skip_ws_def is_json_ws_def
      split: option.splits list.splits if_splits prod.splits)

lemma block_at_brace: "block_at s = Some g \<Longrightarrow> \<exists>cs. g = CHR ''{'' # cs"
  by (auto simp: block_at_def Let_def split: if_splits list.splits)

lemma json_block_search_brace: "json_block_search t = Some g \<Longrightarrow> \<exists>cs. g = CHR ''{'' # cs"
  by (induction t) (auto split: option.splits dest: block_at_brace)

lemma json_findall_from_brace:
  "m \<in> set (json_findall_from k t) \<Longrightarrow> \<exists>cs. m = CHR ''{'' # cs"
  by (induction k t rule: json_findall_from.induct) (auto split: if_splits option.splits)

lemma loads_object_exact:
  "loads_object (CHR ''{'' # cs) = None \<longleftrightarrow> json_loads (CHR ''{'' # cs) = None"
  using json_loads_brace_is_object [of cs]
  by (auto simp: loads_object_def split: option.splits json.splits)

subsection \<open>When the grader raises\<close>

text \<open>
  On the records of the model, and the limits of the interpreter left aside, \<^verbatim>\<open>test\<close> of
  linear-regime-estimation raises when the payload is well typed, its breakpoints have
  the expected number, and one of them is not a string.
\<close>

lemma parse_dates_raises:
  "parse_dates bps = Inl (AttributeError t) \<Longrightarrow> \<exists>v \<in> set bps. (\<forall>s. v \<noteq> JStr s) \<and> t = type_name v"
proof (induction bps)
  case Nil
  then show ?case by simp
next
  case (Cons b bps)
  then show ?case
    by (cases b) (auto split: sum.splits option.splits)
qed

lemma linear_regime_test_raises:
  "linear_regime_test r = Inl e \<longleftrightarrow>
     (\<exists>d v bps t. first_some json_if_any (source_texts r) = Some d
        \<and> map_of d ''regime_count'' = Some v \<and> is_int v
        \<and> map_of d ''breakpoints'' = Some (JList bps)
        \<and> length bps = length EXPECTED_BREAKPOINTS
        \<and> parse_dates bps = Inl (AttributeError t) \<and> e = AttributeError t)"
  by (auto simp: linear_regime_test_sources grade_json_def check_breakpoints_def expected_dates
      Let_def split: option.splits json.splits sum.splits prod.splits if_splits py_error.splits)

subsection \<open>Trimming, case and the tag pattern\<close>

text \<open>
  \<^verbatim>\<open>str.strip\<close> removes the white space around a text and nothing else; the tag
  pattern finds the first pair of tags, in any spelling of their letters, and returns what
  lies between; two texts that differ in the case of their letters only have the same
  white space and the same upper case.
\<close>

lemma py_strip_surrounded:
  assumes "list_all py_isspace ws1" and "list_all py_isspace ws2"
  shows "py_strip (ws1 @ a @ ws2) = py_strip a"
proof -
  from assms(1) have l: "dropWhile py_isspace (ws1 @ a @ ws2) = dropWhile py_isspace (a @ ws2)"
    by (simp add: dropWhile_append2 list_all_iff)
  show ?thesis
  proof (cases "list_all py_isspace a")
    case True
    with assms(2) have e: "dropWhile py_isspace (a @ ws2) = []" "dropWhile py_isspace a = []"
      by (simp_all add: dropWhile_eq_Nil_conv list_all_iff)
    show ?thesis unfolding py_strip_def l e ..
  next
    case False
    then have "dropWhile py_isspace (a @ ws2) = dropWhile py_isspace a @ ws2"
      by (auto simp: list_all_iff dropWhile_append1)
    moreover from assms(2)
    have "dropWhile py_isspace (rev ws2 @ rev (dropWhile py_isspace a))
        = dropWhile py_isspace (rev (dropWhile py_isspace a))"
      by (intro dropWhile_append2) (simp add: list_all_iff)
    ultimately show ?thesis using l by (simp add: py_strip_def)
  qed
qed

lemma py_strip_trimmed:
  assumes "a = [] \<or> (\<not> py_isspace (hd a) \<and> \<not> py_isspace (last a))"
  shows "py_strip a = a"
proof (cases a)
  case Nil
  then show ?thesis by (simp add: py_strip_def)
next
  case (Cons x xs)
  with assms have h: "\<not> py_isspace x" and l: "\<not> py_isspace (last a)" by auto
  from h Cons have "dropWhile py_isspace a = a" by simp
  moreover from l Cons have "dropWhile py_isspace (rev a) = rev a"
    by (simp only: dropWhile_eq_self_iff hd_rev) simp
  ultimately show ?thesis by (simp add: py_strip_def)
qed

lemma of_char_eq_code: "(of_char c :: int) = of_char d \<longleftrightarrow> c = d"
  by (metis char_of_char)

lemma lower_code_lt: "lower_code c = 60 \<longleftrightarrow> c = CHR ''<''"
proof
  assume "lower_code c = 60"
  then have "(of_char c :: int) = of_char (CHR ''<'')"
    by (auto simp: lower_code_def Let_def split: if_splits)
  then show "c = CHR ''<''" by (simp only: of_char_eq_code)
next
  assume "c = CHR ''<''"
  then show "lower_code c = 60" by (simp add: lower_code_def)
qed

lemma ci_prefix_match:
  "list_all2 (\<lambda>x y. lower_code x = lower_code y) op p \<Longrightarrow> ci_prefix p (op @ rest)"
proof (induction p arbitrary: op)
  case Nil
  then show ?case by simp
next
  case (Cons y p)
  then show ?case by (auto simp: list_all2_Cons2)
qed

lemma ci_prefix_needs_lt:
  "c \<noteq> CHR ''<'' \<Longrightarrow> \<not> ci_prefix (CHR ''<'' # p) (c # cs)"
  using lower_code_lt [of c] by (auto simp: lower_code_def)

lemma lazy_body_found:
  assumes "list_all2 (\<lambda>x y. lower_code x = lower_code y) cl ''</answer>''"
    and "CHR ''<'' \<notin> set b"
  shows "lazy_body (b @ cl @ post) = Some b"
  using assms(2)
proof (induction b)
  case Nil
  from assms(1) obtain c cs where cl: "cl = c # cs"
    by (auto simp: list_all2_Cons2)
  from ci_prefix_match [OF assms(1), of post]
  show ?case unfolding cl by simp
next
  case (Cons c b)
  then have "c \<noteq> CHR ''<''" by auto
  then have "\<not> ci_prefix ''</answer>'' (c # b @ cl @ post)"
    by (rule ci_prefix_needs_lt)
  with Cons show ?case by (simp del: ci_prefix.simps)
qed

lemma answer_search_skip:
  "CHR ''<'' \<notin> set pre \<Longrightarrow> answer_search (pre @ rest) = answer_search rest"
proof (induction pre)
  case Nil
  then show ?case by simp
next
  case (Cons c pre)
  then have "c \<noteq> CHR ''<''" by auto
  then have "\<not> ci_prefix ''<answer>'' (c # pre @ rest)"
    by (rule ci_prefix_needs_lt)
  with Cons show ?case by (simp del: ci_prefix.simps)
qed

lemma answer_search_found:
  assumes op: "list_all2 (\<lambda>x y. lower_code x = lower_code y) op ''<answer>''"
    and cl: "list_all2 (\<lambda>x y. lower_code x = lower_code y) cl ''</answer>''"
    and pre: "CHR ''<'' \<notin> set pre" and b: "CHR ''<'' \<notin> set b"
  shows "answer_search (pre @ op @ b @ cl @ post) = Some b"
proof -
  from op have len: "length op = 8" by (auto dest: list_all2_lengthD)
  then obtain c cs where c: "op = c # cs" by (cases op) auto
  have "ci_prefix ''<answer>'' (op @ b @ cl @ post)"
    by (rule ci_prefix_match [OF op])
  moreover have "drop 8 (op @ b @ cl @ post) = b @ cl @ post"
    using len by simp
  moreover have "lazy_body (b @ cl @ post) = Some b"
    by (rule lazy_body_found [OF cl b])
  ultimately have "answer_search (op @ b @ cl @ post) = Some b"
    unfolding c by (simp del: ci_prefix.simps)
  with answer_search_skip [OF pre] show ?thesis by simp
qed

lemma upper_codes_head:
  assumes "65 \<le> u" "u \<le> 90" "u \<noteq> 83"
  shows "upper_codes c @ rest = u # us \<longleftrightarrow> lower_code c = u + 32 \<and> rest = us"
  using assms by (auto simp: upper_codes_def lower_code_def Let_def split: if_splits)

lemma upper_codes_nonempty: "upper_codes c \<noteq> []"
  by (simp add: upper_codes_def Let_def)

lemma py_upper_Nil_iff: "py_upper s = [] \<longleftrightarrow> s = []"
  by (cases s) (simp_all add: py_upper_def upper_codes_nonempty)

lemma py_upper_Cons_iff:
  assumes "65 \<le> u" "u \<le> 90" "u \<noteq> 83"
  shows "py_upper s = u # us \<longleftrightarrow> (\<exists>c cs. s = c # cs \<and> lower_code c = u + 32 \<and> py_upper cs = us)"
proof (cases s)
  case Nil
  then show ?thesis by (simp add: py_upper_def)
next
  case (Cons c cs)
  have "py_upper (c # cs) = upper_codes c @ py_upper cs" by (simp add: py_upper_def)
  with upper_codes_head [OF assms, of c "py_upper cs" us] Cons show ?thesis by simp
qed

lemma py_upper_expected:
  "py_upper s = [69, 70, 80, 84, 71, 75]
   \<longleftrightarrow> list_all2 (\<lambda>x y. lower_code x = lower_code y) s ''EFPTGK''"
proof -
  have lc: "lower_code (CHR ''E'') = 101" "lower_code (CHR ''F'') = 102"
    "lower_code (CHR ''P'') = 112" "lower_code (CHR ''T'') = 116"
    "lower_code (CHR ''G'') = 103" "lower_code (CHR ''K'') = 107"
    by (simp_all add: lower_code_def)
  show ?thesis
    by (simp add: py_upper_Cons_iff py_upper_Nil_iff list_all2_Cons2 lc)
qed

lemma normalize_expected: "normalize_answer EXPECTED_ANSWER = [69, 70, 80, 84, 71, 75]"
  by code_simp

lemma isspace_codes:
  "py_isspace c \<longleftrightarrow> (of_char c :: int) \<in> {9, 10, 11, 12, 13, 28, 29, 30, 31, 32, 133, 160}"
proof
  assume "py_isspace c"
  then show "(of_char c :: int) \<in> {9, 10, 11, 12, 13, 28, 29, 30, 31, 32, 133, 160}"
    by (auto simp: py_isspace_def)
next
  assume "(of_char c :: int) \<in> {9, 10, 11, 12, 13, 28, 29, 30, 31, 32, 133, 160}"
  then have "(of_char c :: int) \<in> of_char ` set [CHR 0x09, CHR 0x0A, CHR 0x0B, CHR 0x0C, CHR 0x0D,
                             CHR 0x1C, CHR 0x1D, CHR 0x1E, CHR 0x1F, CHR 0x20,
                             CHR 0x85, CHR 0xA0]"
    by simp
  then show "py_isspace c"
    unfolding py_isspace_def by (auto simp only: of_char_eq_code image_iff)
qed

lemma lower_case_arith:
  fixes n m :: int
  assumes "(if (65 \<le> n \<and> n \<le> 90) \<or> (192 \<le> n \<and> n \<le> 222 \<and> n \<noteq> 215) then n + 32 else n)
      = (if (65 \<le> m \<and> m \<le> 90) \<or> (192 \<le> m \<and> m \<le> 222 \<and> m \<noteq> 215) then m + 32 else m)"
  shows "n = m
    \<or> (((65 \<le> n \<and> n \<le> 90) \<or> (192 \<le> n \<and> n \<le> 222 \<and> n \<noteq> 215)) \<and> m = n + 32)
    \<or> (((65 \<le> m \<and> m \<le> 90) \<or> (192 \<le> m \<and> m \<le> 222 \<and> m \<noteq> 215)) \<and> n = m + 32)"
  using assms by (auto split: if_splits)

lemma upper_case_arith:
  fixes n :: int
  assumes "(65 \<le> n \<and> n \<le> 90) \<or> (192 \<le> n \<and> n \<le> 222 \<and> n \<noteq> 215)"
  shows "(if 97 \<le> n \<and> n \<le> 122 then [n - 32]
         else if n = 181 then [924]
         else if n = 223 then [83, 83]
         else if 224 \<le> n \<and> n \<le> 254 \<and> n \<noteq> 247 then [n - 32]
         else if n = 255 then [376]
         else [n]) = [n]"
    and "(if 97 \<le> n + 32 \<and> n + 32 \<le> 122 then [n + 32 - 32]
         else if n + 32 = 181 then [924]
         else if n + 32 = 223 then [83, 83]
         else if 224 \<le> n + 32 \<and> n + 32 \<le> 254 \<and> n + 32 \<noteq> 247 then [n + 32 - 32]
         else if n + 32 = 255 then [376]
         else [n + 32]) = [n]"
    and "n \<notin> {9, 10, 11, 12, 13, 28, 29, 30, 31, 32, 133, 160}"
    and "n + 32 \<notin> {9, 10, 11, 12, 13, 28, 29, 30, 31, 32, 133, 160}"
  using assms by auto

lemma lower_code_eq_cases:
  assumes "lower_code c = lower_code d"
  shows "c = d
    \<or> (((65 \<le> (of_char c :: int) \<and> (of_char c :: int) \<le> 90)
          \<or> (192 \<le> (of_char c :: int) \<and> (of_char c :: int) \<le> 222 \<and> (of_char c :: int) \<noteq> 215))
        \<and> (of_char d :: int) = of_char c + 32)
    \<or> (((65 \<le> (of_char d :: int) \<and> (of_char d :: int) \<le> 90)
          \<or> (192 \<le> (of_char d :: int) \<and> (of_char d :: int) \<le> 222 \<and> (of_char d :: int) \<noteq> 215))
        \<and> (of_char c :: int) = of_char d + 32)"
proof -
  from assms have "(of_char c :: int) = of_char d
    \<or> (((65 \<le> (of_char c :: int) \<and> (of_char c :: int) \<le> 90)
          \<or> (192 \<le> (of_char c :: int) \<and> (of_char c :: int) \<le> 222 \<and> (of_char c :: int) \<noteq> 215))
        \<and> (of_char d :: int) = of_char c + 32)
    \<or> (((65 \<le> (of_char d :: int) \<and> (of_char d :: int) \<le> 90)
          \<or> (192 \<le> (of_char d :: int) \<and> (of_char d :: int) \<le> 222 \<and> (of_char d :: int) \<noteq> 215))
        \<and> (of_char c :: int) = of_char d + 32)"
    unfolding lower_code_def Let_def by (rule lower_case_arith)
  then show ?thesis by (simp only: of_char_eq_code)
qed

lemma upper_codes_of_pair:
  assumes "(65 \<le> (of_char c :: int) \<and> (of_char c :: int) \<le> 90)
          \<or> (192 \<le> (of_char c :: int) \<and> (of_char c :: int) \<le> 222 \<and> (of_char c :: int) \<noteq> 215)"
    and "(of_char d :: int) = of_char c + 32"
  shows "upper_codes c = upper_codes d" and "\<not> py_isspace c" and "\<not> py_isspace d"
proof -
  have uc: "upper_codes c = [of_char c]"
    unfolding upper_codes_def Let_def by (rule upper_case_arith(1) [OF assms(1)])
  have ud: "upper_codes d = [of_char c]"
    unfolding upper_codes_def Let_def assms(2) by (rule upper_case_arith(2) [OF assms(1)])
  from uc ud show "upper_codes c = upper_codes d" by (simp only:)
  show "\<not> py_isspace c"
    unfolding isspace_codes by (rule upper_case_arith(3) [OF assms(1)])
  show "\<not> py_isspace d"
    unfolding isspace_codes assms(2) by (rule upper_case_arith(4) [OF assms(1)])
qed

lemma same_lower:
  assumes "lower_code c = lower_code d"
  shows "upper_codes c = upper_codes d" and "py_isspace c = py_isspace d"
proof -
  from lower_code_eq_cases [OF assms]
  consider "c = d"
    | "((65 \<le> (of_char c :: int) \<and> (of_char c :: int) \<le> 90)
          \<or> (192 \<le> (of_char c :: int) \<and> (of_char c :: int) \<le> 222 \<and> (of_char c :: int) \<noteq> 215))"
      "(of_char d :: int) = of_char c + 32"
    | "((65 \<le> (of_char d :: int) \<and> (of_char d :: int) \<le> 90)
          \<or> (192 \<le> (of_char d :: int) \<and> (of_char d :: int) \<le> 222 \<and> (of_char d :: int) \<noteq> 215))"
      "(of_char c :: int) = of_char d + 32"
    by blast
  then have "upper_codes c = upper_codes d \<and> py_isspace c = py_isspace d"
  proof cases
    case 1
    then show ?thesis by simp
  next
    case 2
    from upper_codes_of_pair [OF 2] show ?thesis by simp
  next
    case 3
    from upper_codes_of_pair [OF 3] show ?thesis by simp
  qed
  then show "upper_codes c = upper_codes d" and "py_isspace c = py_isspace d"
    by (simp_all only:)
qed

lemma same_lower_dropWhile:
  "list_all2 (\<lambda>x y. lower_code x = lower_code y) xs ys \<Longrightarrow>
   list_all2 (\<lambda>x y. lower_code x = lower_code y)
     (dropWhile py_isspace xs) (dropWhile py_isspace ys)"
  by (induction xs ys rule: list_all2_induct) (auto dest: same_lower(2))

lemma same_lower_strip:
  assumes "list_all2 (\<lambda>x y. lower_code x = lower_code y) xs ys"
  shows "list_all2 (\<lambda>x y. lower_code x = lower_code y) (py_strip xs) (py_strip ys)"
proof -
  from same_lower_dropWhile [OF assms]
  have "list_all2 (\<lambda>x y. lower_code x = lower_code y)
      (rev (dropWhile py_isspace xs)) (rev (dropWhile py_isspace ys))"
    by (simp only: list_all2_rev)
  from same_lower_dropWhile [OF this] show ?thesis
    unfolding py_strip_def by (simp only: list_all2_rev)
qed

lemma same_lower_upper:
  "list_all2 (\<lambda>x y. lower_code x = lower_code y) xs ys \<Longrightarrow> py_upper xs = py_upper ys"
  unfolding py_upper_def
  by (induction xs ys rule: list_all2_induct) (auto dest: same_lower(1))

lemma normalize_same_lower:
  "list_all2 (\<lambda>x y. lower_code x = lower_code y) xs ys \<Longrightarrow>
   normalize_answer xs = normalize_answer ys"
  unfolding normalize_answer_def by (intro same_lower_upper same_lower_strip)

lemma normalize_expected_iff:
  "normalize_answer z = normalize_answer EXPECTED_ANSWER
   \<longleftrightarrow> list_all2 (\<lambda>x y. lower_code x = lower_code y) (py_strip z) ''EFPTGK''"
  unfolding normalize_expected
  by (simp only: normalize_answer_def py_upper_expected)

subsection \<open>Sources without a payload\<close>

lemma first_some_skip:
  "\<forall>s \<in> set mid. f s = None \<Longrightarrow> first_some f (xs @ mid @ ys) = first_some f (xs @ ys)"
proof -
  assume "\<forall>s \<in> set mid. f s = None"
  then have "first_some f mid = None" by (simp add: first_some_None_iff)
  then show ?thesis by (simp add: first_some_append split: option.split)
qed

lemma scan_answer_skips_message:
  assumes "\<forall>s \<in> set (tool_result_texts m @ content_texts m).
             \<not> truthy_str (extract_answer_from_text s)"
  shows "extract_answer_from_conversation (older @ m # newer)
       = extract_answer_from_conversation (older @ newer)"
proof -
  from assms have t: "\<forall>s \<in> set (tool_result_texts m). answer_if_any s = None"
    and c: "\<forall>s \<in> set (content_texts m). answer_if_any s = None"
    by (simp_all add: answer_if_any_None_iff)
  have tools: "first_some answer_if_any (concat (map tool_result_texts (rev (older @ m # newer))))
      = first_some answer_if_any (concat (map tool_result_texts (rev (older @ newer))))"
    using first_some_skip [OF t, of "concat (map tool_result_texts (rev newer))"
        "concat (map tool_result_texts (rev older))"]
    by simp
  have contents: "first_some answer_if_any (concat (map content_texts (rev (older @ m # newer))))
      = first_some answer_if_any (concat (map content_texts (rev (older @ newer))))"
    using first_some_skip [OF c, of "concat (map content_texts (rev newer))"
        "concat (map content_texts (rev older))"]
    by simp
  show ?thesis
    unfolding scan_answer_two_pass two_pass_texts_def first_some_append tools contents ..
qed

lemma first_some_after_empty:
  assumes "\<forall>s \<in> set higher. \<not> truthy_str (extract_answer_from_text s)"
    and "extract_answer_from_text t = Some a" and "a \<noteq> []"
  shows "first_some answer_if_any (higher @ t # lower) = Some a"
proof -
  from assms(1) have "\<forall>s \<in> set higher. answer_if_any s = None"
    by (simp add: answer_if_any_None_iff)
  moreover from assms(2,3) have "answer_if_any t = Some a"
    by (simp add: answer_if_any_Some_iff)
  ultimately show ?thesis by (rule first_some_shadow)
qed

section \<open>The claims\<close>

text \<open>
  C6. Tag extraction and comparison do not depend on case or on surrounding white
  space. Extraction: whatever the case of the letters of the two tags, the first tag
  pair yields its body without the white space around it. Trimming removes exactly the
  white space at both ends, the white space being the twelve characters that
  \<^verbatim>\<open>str.isspace\<close> accepts up to U+00FF. Comparison: two answers that differ only in the
  case of their letters and in surrounding white space normalise alike, and an answer
  normalises like the expected one exactly when, trimmed, it is \<^verbatim>\<open>EFPTGK\<close> up to the case
  of its letters; so a record with a payload passes exactly when its status is
  \<^verbatim>\<open>success\<close> and its answer is \<^verbatim>\<open>EFPTGK\<close> up to case. In particular
  \<^verbatim>\<open><answer> efptgk </answer>\<close> and \<^verbatim>\<open><ANSWER>EFPTGK</ANSWER>\<close> yield payloads that
  normalise to the code points of \<^verbatim>\<open>EFPTGK\<close>, and a record with status \<^verbatim>\<open>success\<close> whose
  extracted answer is \<^verbatim>\<open>efptgk\<close> passes.
\<close>

theorem tag_answer_case_and_whitespace_insensitive:
  \<open>(list_all2 (\<lambda>x y. lower_code x = lower_code y) op ''<answer>''
      \<and> list_all2 (\<lambda>x y. lower_code x = lower_code y) cl ''</answer>''
      \<and> CHR ''<'' \<notin> set pre \<and> CHR ''<'' \<notin> set b
      \<longrightarrow> extract_answer_from_text (pre @ op @ b @ cl @ post) = Some (py_strip b))
   \<and> (list_all py_isspace ws1 \<and> list_all py_isspace ws2
       \<and> (a = [] \<or> (\<not> py_isspace (hd a) \<and> \<not> py_isspace (last a)))
      \<longrightarrow> py_strip (ws1 @ a @ ws2) = a)
   \<and> (py_isspace c
        \<longleftrightarrow> (of_char c :: int) \<in> {9, 10, 11, 12, 13, 28, 29, 30, 31, 32, 133, 160})
   \<and> (list_all py_isspace ws1' \<and> list_all py_isspace ws2'
       \<and> list_all2 (\<lambda>x y. lower_code x = lower_code y) x y
      \<longrightarrow> normalize_answer (ws1' @ x @ ws2') = normalize_answer y)
   \<and> (normalize_answer z = normalize_answer EXPECTED_ANSWER
        \<longleftrightarrow> list_all2 (\<lambda>x y. lower_code x = lower_code y) (py_strip z) ''EFPTGK'')
   \<and> (first_some answer_if_any (source_texts r) = Some e
      \<longrightarrow> passed (eight_puzzle_test r)
            = (status r = Some ''success''
               \<and> list_all2 (\<lambda>x y. lower_code x = lower_code y) (py_strip e) ''EFPTGK''))
   \<and> extract_answer_from_text ''<answer> efptgk </answer>'' = Some ''efptgk''
   \<and> extract_answer_from_text ''<ANSWER>EFPTGK</ANSWER>'' = Some ''EFPTGK''
   \<and> normalize_answer ''efptgk'' = [69, 70, 80, 84, 71, 75]
   \<and> normalize_answer ''EFPTGK'' = [69, 70, 80, 84, 71, 75]
   \<and> map of_char ''EFPTGK'' = [69, 70, 80, 84, 71, 75 :: int]
   \<and> EXPECTED_ANSWER = ''EFPTGK''
   \<and> eight_puzzle_test
         \<lparr>status = Some ''success'', conversation = None,
          task_result = Some ''<answer> efptgk </answer>''\<rparr>
       = \<lparr>passed = True,
          feedback = [FoundAnswer ''efptgk'', CodeLine True ''efptgk'' ''EFPTGK''],
          details = [(''task_completed'', JBool True), (''output_answer'', JStr ''efptgk''),
                     (''answer_correct'', JBool True), (''expected_answer'', JStr ''EFPTGK'')]\<rparr>\<close>
proof (intro conjI impI)
  assume h: \<open>list_all2 (\<lambda>x y. lower_code x = lower_code y) op ''<answer>''
      \<and> list_all2 (\<lambda>x y. lower_code x = lower_code y) cl ''</answer>''
      \<and> CHR ''<'' \<notin> set pre \<and> CHR ''<'' \<notin> set b\<close>
  then have \<open>answer_search (pre @ op @ b @ cl @ post) = Some b\<close>
    by (intro answer_search_found) simp_all
  then show \<open>extract_answer_from_text (pre @ op @ b @ cl @ post) = Some (py_strip b)\<close>
    by (simp add: extract_answer_from_text_def)
next
  assume h: \<open>list_all py_isspace ws1 \<and> list_all py_isspace ws2
       \<and> (a = [] \<or> (\<not> py_isspace (hd a) \<and> \<not> py_isspace (last a)))\<close>
  then have \<open>py_strip (ws1 @ a @ ws2) = py_strip a\<close>
    by (intro py_strip_surrounded) simp_all
  moreover from h have \<open>py_strip a = a\<close>
    by (intro py_strip_trimmed) simp
  ultimately show \<open>py_strip (ws1 @ a @ ws2) = a\<close> by simp
next
  show \<open>py_isspace c
        \<longleftrightarrow> (of_char c :: int) \<in> {9, 10, 11, 12, 13, 28, 29, 30, 31, 32, 133, 160}\<close>
    by (rule isspace_codes)
next
  assume h: \<open>list_all py_isspace ws1' \<and> list_all py_isspace ws2'
       \<and> list_all2 (\<lambda>x y. lower_code x = lower_code y) x y\<close>
  then have \<open>py_strip (ws1' @ x @ ws2') = py_strip x\<close>
    by (intro py_strip_surrounded) simp_all
  then have \<open>normalize_answer (ws1' @ x @ ws2') = normalize_answer x\<close>
    by (simp add: normalize_answer_def)
  also from h have \<open>normalize_answer x = normalize_answer y\<close>
    by (intro normalize_same_lower) simp
  finally show \<open>normalize_answer (ws1' @ x @ ws2') = normalize_answer y\<close> .
next
  show \<open>normalize_answer z = normalize_answer EXPECTED_ANSWER
        \<longleftrightarrow> list_all2 (\<lambda>x y. lower_code x = lower_code y) (py_strip z) ''EFPTGK''\<close>
    by (rule normalize_expected_iff)
next
  assume \<open>first_some answer_if_any (source_texts r) = Some e\<close>
  then show \<open>passed (eight_puzzle_test r)
            = (status r = Some ''success''
               \<and> list_all2 (\<lambda>x y. lower_code x = lower_code y) (py_strip e) ''EFPTGK'')\<close>
    by (simp add: eight_puzzle_test_sources normalize_expected_iff)
next
  show \<open>extract_answer_from_text ''<answer> efptgk </answer>'' = Some ''efptgk''\<close>
    by code_simp
next
  show \<open>extract_answer_from_text ''<ANSWER>EFPTGK</ANSWER>'' = Some ''EFPTGK''\<close>
    by code_simp
next
  show \<open>normalize_answer ''efptgk'' = [69, 70, 80, 84, 71, 75]\<close>
    by code_simp
next
  show \<open>normalize_answer ''EFPTGK'' = [69, 70, 80, 84, 71, 75]\<close>
    by code_simp
next
  show \<open>map of_char ''EFPTGK'' = [69, 70, 80, 84, 71, 75 :: int]\<close>
    by simp
next
  show \<open>EXPECTED_ANSWER = ''EFPTGK''\<close>
    by (simp add: EXPECTED_ANSWER_def)
next
  show \<open>eight_puzzle_test
         \<lparr>status = Some ''success'', conversation = None,
          task_result = Some ''<answer> efptgk </answer>''\<rparr>
       = \<lparr>passed = True,
          feedback = [FoundAnswer ''efptgk'', CodeLine True ''efptgk'' ''EFPTGK''],
          details = [(''task_completed'', JBool True), (''output_answer'', JStr ''efptgk''),
                     (''answer_correct'', JBool True), (''expected_answer'', JStr ''EFPTGK'')]\<rparr>\<close>
    by code_simp
qed

theorem tag_answer_case_and_whitespace_insensitive_witness:
  \<open>extract_answer_from_text
      (''The code: '' @ ''<AnSwEr>'' @ (CHR 0xA0 # ''efptgk '') @ ''</ANSWER>'' @ ''.'')
     = Some ''efptgk''
   \<and> py_strip ([CHR 0xA0, CHR 0x20] @ ''ef pt gk'' @ [CHR 0x09]) = ''ef pt gk''
   \<and> normalize_answer ('' '' @ ''eFpTgK'' @ [CHR 0x85]) = normalize_answer ''EFPTGK''
   \<and> normalize_answer ''efptgk'' = normalize_answer EXPECTED_ANSWER
   \<and> normalize_answer ''efptgx'' \<noteq> normalize_answer EXPECTED_ANSWER
   \<and> normalize_answer ''ef ptgk'' \<noteq> normalize_answer EXPECTED_ANSWER
   \<and> passed (eight_puzzle_test
         \<lparr>status = Some ''success'', conversation = None,
          task_result = Some ''<ANSWER> eFpTgK </answer>''\<rparr>)
   \<and> \<not> passed (eight_puzzle_test
         \<lparr>status = Some ''success'', conversation = None,
          task_result = Some ''<answer>EFPTGX</answer>''\<rparr>)\<close>
proof -
  let ?ci = \<open>\<lambda>x y. lower_code x = lower_code y\<close>
  let ?r = \<open>\<lparr>status = Some ''success'', conversation = None,
          task_result = Some ''<ANSWER> eFpTgK </answer>''\<rparr>\<close>
  let ?r' = \<open>\<lparr>status = Some ''success'', conversation = None,
          task_result = Some ''<answer>EFPTGX</answer>''\<rparr>\<close>
  have h1: \<open>list_all2 ?ci ''<AnSwEr>'' ''<answer>''
      \<and> list_all2 ?ci ''</ANSWER>'' ''</answer>''
      \<and> CHR ''<'' \<notin> set ''The code: '' \<and> CHR ''<'' \<notin> set (CHR 0xA0 # ''efptgk '')\<close>
    by code_simp
  have s1: \<open>py_strip (CHR 0xA0 # ''efptgk '') = ''efptgk''\<close>
    by code_simp
  have h2: \<open>list_all py_isspace [CHR 0xA0, CHR 0x20] \<and> list_all py_isspace [CHR 0x09]
       \<and> (''ef pt gk'' = [] \<or> (\<not> py_isspace (hd ''ef pt gk'') \<and> \<not> py_isspace (last ''ef pt gk'')))\<close>
    by code_simp
  have h4: \<open>list_all py_isspace '' '' \<and> list_all py_isspace [CHR 0x85]
       \<and> list_all2 ?ci ''eFpTgK'' ''EFPTGK''\<close>
    by code_simp
  have h5: \<open>list_all2 ?ci (py_strip ''efptgk'') ''EFPTGK''\<close>
    \<open>\<not> list_all2 ?ci (py_strip ''efptgx'') ''EFPTGK''\<close>
    \<open>\<not> list_all2 ?ci (py_strip ''ef ptgk'') ''EFPTGK''\<close>
    by code_simp+
  have h6: \<open>first_some answer_if_any (source_texts ?r) = Some ''eFpTgK''\<close>
    \<open>first_some answer_if_any (source_texts ?r') = Some ''EFPTGX''\<close>
    by code_simp+
  have h7: \<open>status ?r = Some ''success''\<close> \<open>status ?r' = Some ''success''\<close>
    \<open>list_all2 ?ci (py_strip ''eFpTgK'') ''EFPTGK''\<close>
    \<open>\<not> list_all2 ?ci (py_strip ''EFPTGX'') ''EFPTGK''\<close>
    by code_simp+
  note inst = tag_answer_case_and_whitespace_insensitive
      [where op = \<open>''<AnSwEr>''\<close> and cl = \<open>''</ANSWER>''\<close> and pre = \<open>''The code: ''\<close>
        and b = \<open>CHR 0xA0 # ''efptgk ''\<close> and post = \<open>''.''\<close>
        and ?ws1.0 = \<open>[CHR 0xA0, CHR 0x20]\<close> and a = \<open>''ef pt gk''\<close>
        and ?ws2.0 = \<open>[CHR 0x09]\<close>
        and ws1' = \<open>'' ''\<close> and x = \<open>''eFpTgK''\<close> and y = \<open>''EFPTGK''\<close>
        and ws2' = \<open>[CHR 0x85]\<close>]
  from inst [where z = \<open>''efptgk''\<close> and r = ?r and e = \<open>''eFpTgK''\<close>] h1
  have \<open>extract_answer_from_text
      (''The code: '' @ ''<AnSwEr>'' @ (CHR 0xA0 # ''efptgk '') @ ''</ANSWER>'' @ ''.'')
     = Some (py_strip (CHR 0xA0 # ''efptgk ''))\<close>
    by blast
  then have c1: \<open>extract_answer_from_text
      (''The code: '' @ ''<AnSwEr>'' @ (CHR 0xA0 # ''efptgk '') @ ''</ANSWER>'' @ ''.'')
     = Some ''efptgk''\<close>
    unfolding s1 .
  from inst [where z = \<open>''efptgk''\<close> and r = ?r and e = \<open>''eFpTgK''\<close>] h2
  have c2: \<open>py_strip ([CHR 0xA0, CHR 0x20] @ ''ef pt gk'' @ [CHR 0x09]) = ''ef pt gk''\<close>
    by blast
  from inst [where z = \<open>''efptgk''\<close> and r = ?r and e = \<open>''eFpTgK''\<close>] h4
  have c4: \<open>normalize_answer ('' '' @ ''eFpTgK'' @ [CHR 0x85]) = normalize_answer ''EFPTGK''\<close>
    by blast
  from inst [where z = \<open>''efptgk''\<close> and r = ?r and e = \<open>''eFpTgK''\<close>] h5(1)
  have c5: \<open>normalize_answer ''efptgk'' = normalize_answer EXPECTED_ANSWER\<close>
    by blast
  from inst [where z = \<open>''efptgx''\<close> and r = ?r and e = \<open>''eFpTgK''\<close>] h5(2)
  have c6: \<open>normalize_answer ''efptgx'' \<noteq> normalize_answer EXPECTED_ANSWER\<close>
    by blast
  from inst [where z = \<open>''ef ptgk''\<close> and r = ?r and e = \<open>''eFpTgK''\<close>] h5(3)
  have c7: \<open>normalize_answer ''ef ptgk'' \<noteq> normalize_answer EXPECTED_ANSWER\<close>
    by blast
  from inst [where z = \<open>''efptgk''\<close> and r = ?r and e = \<open>''eFpTgK''\<close>] h6(1) h7(1) h7(3)
  have c8: \<open>passed (eight_puzzle_test ?r)\<close>
    by blast
  from inst [where z = \<open>''efptgk''\<close> and r = ?r' and e = \<open>''EFPTGX''\<close>] h6(2) h7(4)
  have c9: \<open>\<not> passed (eight_puzzle_test ?r')\<close>
    by blast
  from c1 c2 c4 c5 c6 c7 c8 c9 show ?thesis by blast
qed

text \<open>
  C3. Evaluation is meant to be total, every malformed input becoming a failure outcome.
  The grader of linear-regime-estimation checks the types of \<^verbatim>\<open>regime_count\<close> and of
  \<^verbatim>\<open>breakpoints\<close> and catches the \<^verbatim>\<open>ValueError\<close> of a malformed date, but it does not check
  the type of the elements of \<^verbatim>\<open>breakpoints\<close>: on a well-formed JSON payload whose
  breakpoints are two numbers, \<^verbatim>\<open>_parse_date\<close> calls \<^verbatim>\<open>strip\<close> on an \<^verbatim>\<open>int\<close>, and the
  \<^verbatim>\<open>AttributeError\<close> leaves \<^verbatim>\<open>test\<close>: no outcome is returned.
\<close>

theorem non_string_breakpoint_raises:
  \<open>linear_regime_test
     \<lparr>status = Some ''success'', conversation = None,
      task_result = Some ''{"regime_count": 3, "breakpoints": [1, 2]}''\<rparr>
   = Inl (AttributeError ''int'')\<close>
  by code_simp

text \<open>
  C1, as stated, fails: the claim has the scanner finish with a message (tool-call
  results, then content) before it turns to the next older one, so that the content of a
  newer message would be preferred to the tool-call result of an older one. In the
  transcript below the older assistant message carries a \<^verbatim>\<open>task_complete\<close> result and the
  newer one a payload in its content: both scanners return the older tool-call result,
  where the order of the claim (\<open>per_message_texts\<close>) would return the newer content.
\<close>

theorem older_tool_result_beats_newer_content:
  \<open>extract_answer_from_conversation
     [Message (Some ''assistant'')
        (Some [ToolCall (Some ''task_complete'')
                 (Some (JStr ''{"result": "<answer>OLD</answer>"}''))])
        None,
      Message (Some ''assistant'') None (Some ''<answer>NEW</answer>'')]
   = Some ''OLD''
   \<and> first_some answer_if_any (per_message_texts
     [Message (Some ''assistant'')
        (Some [ToolCall (Some ''task_complete'')
                 (Some (JStr ''{"result": "<answer>OLD</answer>"}''))])
        None,
      Message (Some ''assistant'') None (Some ''<answer>NEW</answer>'')])
   = Some ''NEW''
   \<and> extract_json_from_conversation
     [Message (Some ''assistant'')
        (Some [ToolCall (Some ''task_complete'')
                 (Some (JObj [(''result'', JStr ''{"regime_count": 1}'')]))])
        None,
      Message (Some ''assistant'') None (Some ''{"regime_count": 2}'')]
   = Some [(''regime_count'', JInt 1)]
   \<and> first_some json_if_any (per_message_texts
     [Message (Some ''assistant'')
        (Some [ToolCall (Some ''task_complete'')
                 (Some (JObj [(''result'', JStr ''{"regime_count": 1}'')]))])
        None,
      Message (Some ''assistant'') None (Some ''{"regime_count": 2}'')])
   = Some [(''regime_count'', JInt 2)]\<close>
  by code_simp

text \<open>
  C1, amended. Both scanners make two passes over the transcript, each from the newest
  message to the oldest: the first pass tries the \<^verbatim>\<open>task_complete\<close> results of every
  assistant message, in the order of its calls, and only when no message yields a payload
  there does the second pass try the contents. The scanner returns the first payload in
  that order; so a payload in the tool-call result of any assistant message, however old,
  is returned whatever the contents hold.
\<close>

theorem scanner_makes_two_passes:
  "extract_answer_from_conversation conv = first_some answer_if_any (two_pass_texts conv)
   \<and> extract_json_from_conversation conv = first_some json_if_any (two_pass_texts conv)
   \<and> (first_some answer_if_any (concat (map tool_result_texts (rev conv))) = Some a
        \<longrightarrow> extract_answer_from_conversation conv = Some a)
   \<and> (first_some json_if_any (concat (map tool_result_texts (rev conv))) = Some d
        \<longrightarrow> extract_json_from_conversation conv = Some d)"
  by (simp add: scan_answer_two_pass scan_json_two_pass two_pass_texts_def first_some_append)

theorem scanner_makes_two_passes_witness:
  \<open>first_some answer_if_any (concat (map tool_result_texts (rev
     [Message (Some ''assistant'')
        (Some [ToolCall (Some ''task_complete'')
                 (Some (JStr ''{"result": "<answer>OLD</answer>"}''))])
        None,
      Message (Some ''assistant'') None (Some ''<answer>NEW</answer>'')]))) = Some ''OLD''
   \<and> extract_answer_from_conversation
     [Message (Some ''assistant'')
        (Some [ToolCall (Some ''task_complete'')
                 (Some (JStr ''{"result": "<answer>OLD</answer>"}''))])
        None,
      Message (Some ''assistant'') None (Some ''<answer>NEW</answer>'')] = Some ''OLD''
   \<and> first_some json_if_any (concat (map tool_result_texts (rev
     [Message (Some ''user'') None (Some ''{"regime_count": 2}''),
      Message (Some ''assistant'')
        (Some [ToolCall (Some ''task_complete'')
                 (Some (JObj [(''result'', JStr ''{"regime_count": 1}'')]))])
        (Some ''{"regime_count": 3}'')]))) = Some [(''regime_count'', JInt 1)]
   \<and> extract_json_from_conversation
     [Message (Some ''user'') None (Some ''{"regime_count": 2}''),
      Message (Some ''assistant'')
        (Some [ToolCall (Some ''task_complete'')
                 (Some (JObj [(''result'', JStr ''{"regime_count": 1}'')]))])
        (Some ''{"regime_count": 3}'')] = Some [(''regime_count'', JInt 1)]\<close>
proof -
  let ?conv = \<open>[Message (Some ''assistant'')
        (Some [ToolCall (Some ''task_complete'')
                 (Some (JStr ''{"result": "<answer>OLD</answer>"}''))])
        None,
      Message (Some ''assistant'') None (Some ''<answer>NEW</answer>'')]\<close>
  let ?conv' = \<open>[Message (Some ''user'') None (Some ''{"regime_count": 2}''),
      Message (Some ''assistant'')
        (Some [ToolCall (Some ''task_complete'')
                 (Some (JObj [(''result'', JStr ''{"regime_count": 1}'')]))])
        (Some ''{"regime_count": 3}'')]\<close>
  have h: \<open>first_some answer_if_any (concat (map tool_result_texts (rev ?conv))) = Some ''OLD''\<close>
    by code_simp
  have h': \<open>first_some json_if_any (concat (map tool_result_texts (rev ?conv')))
      = Some [(''regime_count'', JInt 1)]\<close>
    by code_simp
  from scanner_makes_two_passes [of ?conv "''OLD''"] h
  have \<open>extract_answer_from_conversation ?conv = Some ''OLD''\<close> by blast
  moreover from scanner_makes_two_passes [of ?conv' _ "[(''regime_count'', JInt 1)]"] h'
  have \<open>extract_json_from_conversation ?conv' = Some [(''regime_count'', JInt 1)]\<close> by blast
  ultimately show ?thesis using h h' by blast
qed


text \<open>
  C2. When the direct result (\<^verbatim>\<open>task_result\<close>) holds an extractable payload, the grader
  uses it and the conversation plays no part: replacing the conversation by any other
  leaves the outcome unchanged, and the payload graded is the one of the direct result.
  A payload is extractable when the extractor returns one that is truthy, as the code
  tests it.
\<close>

theorem direct_result_wins:
  "(task_result r = Some t \<and> extract_answer_from_text t = Some a \<and> a \<noteq> []
      \<longrightarrow> eight_puzzle_test (r\<lparr>conversation := c\<rparr>) = eight_puzzle_test r
          \<and> map_of (details (eight_puzzle_test (r\<lparr>conversation := c\<rparr>))) ''output_answer''
              = Some (JStr a))
   \<and> (task_result r' = Some t' \<and> extract_json_from_text t' = Some d \<and> d \<noteq> []
      \<longrightarrow> linear_regime_test (r'\<lparr>conversation := c'\<rparr>) = linear_regime_test r'
          \<and> linear_regime_test (r'\<lparr>conversation := c'\<rparr>)
              = grade_json (status r' = Some ''success'') d)"
proof (intro conjI impI)
  assume h: "task_result r = Some t \<and> extract_answer_from_text t = Some a \<and> a \<noteq> []"
  then have any: "answer_if_any t = Some a" by (simp add: answer_if_any_Some_iff)
  have found: "first_some answer_if_any (source_texts (r\<lparr>conversation := x\<rparr>)) = Some a" for x
    using h any by (simp add: source_texts_def)
  from found [of "conversation r"]
  have found0: "first_some answer_if_any (source_texts r) = Some a" by simp
  show "eight_puzzle_test (r\<lparr>conversation := c\<rparr>) = eight_puzzle_test r"
    by (simp add: eight_puzzle_test_sources found found0)
  show "map_of (details (eight_puzzle_test (r\<lparr>conversation := c\<rparr>))) ''output_answer''
          = Some (JStr a)"
    by (simp add: eight_puzzle_test_sources found)
next
  assume h: "task_result r' = Some t' \<and> extract_json_from_text t' = Some d \<and> d \<noteq> []"
  then have any: "json_if_any t' = Some d" by (simp add: json_if_any_Some_iff)
  have found: "first_some json_if_any (source_texts (r'\<lparr>conversation := x\<rparr>)) = Some d" for x
    using h any by (simp add: source_texts_def)
  from found [of "conversation r'"]
  have found0: "first_some json_if_any (source_texts r') = Some d" by simp
  show "linear_regime_test (r'\<lparr>conversation := c'\<rparr>) = linear_regime_test r'"
    by (simp add: linear_regime_test_sources found found0)
  show "linear_regime_test (r'\<lparr>conversation := c'\<rparr>) = grade_json (status r' = Some ''success'') d"
    by (simp add: linear_regime_test_sources found)
qed

theorem direct_result_wins_witness:
  \<open>extract_answer_from_text ''<answer>EFPTGK</answer>'' = Some ''EFPTGK''
   \<and> extract_answer_from_conversation
         [Message (Some ''assistant'') None (Some ''<answer>WRONG</answer>'')] = Some ''WRONG''
   \<and> eight_puzzle_test
         (\<lparr>status = Some ''success'', conversation = None,
           task_result = Some ''<answer>EFPTGK</answer>''\<rparr>
          \<lparr>conversation :=
             Some [Message (Some ''assistant'') None (Some ''<answer>WRONG</answer>'')]\<rparr>)
       = eight_puzzle_test
         \<lparr>status = Some ''success'', conversation = None,
          task_result = Some ''<answer>EFPTGK</answer>''\<rparr>
   \<and> map_of (details (eight_puzzle_test
         (\<lparr>status = Some ''success'', conversation = None,
           task_result = Some ''<answer>EFPTGK</answer>''\<rparr>
          \<lparr>conversation :=
             Some [Message (Some ''assistant'') None (Some ''<answer>WRONG</answer>'')]\<rparr>)))
         ''output_answer''
       = Some (JStr ''EFPTGK'')
   \<and> extract_json_from_text ''{"regime_count": 3}'' = Some [(''regime_count'', JInt 3)]
   \<and> extract_json_from_conversation
         [Message (Some ''assistant'') None (Some ''{"regime_count": 4, "breakpoints": []}'')]
       = Some [(''regime_count'', JInt 4), (''breakpoints'', JList [])]
   \<and> linear_regime_test
         (\<lparr>status = Some ''success'', conversation = None,
           task_result = Some ''{"regime_count": 3}''\<rparr>
          \<lparr>conversation :=
             Some [Message (Some ''assistant'') None
                     (Some ''{"regime_count": 4, "breakpoints": []}'')]\<rparr>)
       = grade_json True [(''regime_count'', JInt 3)]\<close>
proof -
  let ?r = \<open>\<lparr>status = Some ''success'', conversation = None,
             task_result = Some ''<answer>EFPTGK</answer>''\<rparr>\<close>
  let ?c = \<open>Some [Message (Some ''assistant'') None (Some ''<answer>WRONG</answer>'')]\<close>
  let ?r' = \<open>\<lparr>status = Some ''success'', conversation = None,
              task_result = Some ''{"regime_count": 3}''\<rparr>\<close>
  let ?c' = \<open>Some [Message (Some ''assistant'') None
                     (Some ''{"regime_count": 4, "breakpoints": []}'')]\<close>
  have e: \<open>extract_answer_from_text ''<answer>EFPTGK</answer>'' = Some ''EFPTGK''\<close>
    by code_simp
  have w: \<open>extract_answer_from_conversation
         [Message (Some ''assistant'') None (Some ''<answer>WRONG</answer>'')] = Some ''WRONG''\<close>
    by code_simp
  have e': \<open>extract_json_from_text ''{"regime_count": 3}'' = Some [(''regime_count'', JInt 3)]\<close>
    by code_simp
  have w': \<open>extract_json_from_conversation
         [Message (Some ''assistant'') None (Some ''{"regime_count": 4, "breakpoints": []}'')]
       = Some [(''regime_count'', JInt 4), (''breakpoints'', JList [])]\<close>
    by code_simp
  have h: \<open>task_result ?r = Some ''<answer>EFPTGK</answer>''
      \<and> extract_answer_from_text ''<answer>EFPTGK</answer>'' = Some ''EFPTGK''
      \<and> ''EFPTGK'' \<noteq> []\<close>
    using e by simp
  have h': \<open>task_result ?r' = Some ''{"regime_count": 3}''
      \<and> extract_json_from_text ''{"regime_count": 3}'' = Some [(''regime_count'', JInt 3)]
      \<and> [(''regime_count'', JInt 3)] \<noteq> []\<close>
    using e' by simp
  note inst = direct_result_wins [where r = ?r and t = \<open>''<answer>EFPTGK</answer>''\<close>
      and a = \<open>''EFPTGK''\<close> and c = ?c and r' = ?r' and t' = \<open>''{"regime_count": 3}''\<close>
      and d = \<open>[(''regime_count'', JInt 3)]\<close> and c' = ?c']
  have st: \<open>(status ?r' = Some ''success'') = True\<close> by simp
  from inst h h' have
    \<open>eight_puzzle_test (?r\<lparr>conversation := ?c\<rparr>) = eight_puzzle_test ?r\<close>
    \<open>map_of (details (eight_puzzle_test (?r\<lparr>conversation := ?c\<rparr>))) ''output_answer''
       = Some (JStr ''EFPTGK'')\<close>
    \<open>linear_regime_test (?r'\<lparr>conversation := ?c'\<rparr>)
       = grade_json (status ?r' = Some ''success'') [(''regime_count'', JInt 3)]\<close>
    by blast+
  with e w e' w' show ?thesis unfolding st by blast
qed

text \<open>
  C9. Extraction stops at the first source that yields a payload, and validation works on
  that payload alone: when the sources of two records agree up to and including the first
  one that yields a payload, the records are graded alike whatever their lower sources
  hold, and the verdict is the validation of that payload; a payload that fails validation
  is never replaced by one from a lower source.
\<close>

theorem first_success_shadows_lower_sources:
  "(source_texts r1 = higher @ t # lower1 \<and> source_texts r2 = higher @ t # lower2
      \<and> status r1 = status r2
      \<and> (\<forall>s \<in> set higher. answer_if_any s = None) \<and> answer_if_any t = Some a
      \<longrightarrow> eight_puzzle_test r1 = eight_puzzle_test r2
          \<and> map_of (details (eight_puzzle_test r1)) ''output_answer'' = Some (JStr a)
          \<and> passed (eight_puzzle_test r1)
              = (status r1 = Some ''success''
                 \<and> normalize_answer a = normalize_answer EXPECTED_ANSWER))
   \<and> (source_texts r1' = higher' @ t' # lower1' \<and> source_texts r2' = higher' @ t' # lower2'
      \<and> status r1' = status r2'
      \<and> (\<forall>s \<in> set higher'. json_if_any s = None) \<and> json_if_any t' = Some d
      \<longrightarrow> linear_regime_test r1' = linear_regime_test r2'
          \<and> linear_regime_test r1' = grade_json (status r1' = Some ''success'') d)"
proof (intro conjI impI)
  assume h: "source_texts r1 = higher @ t # lower1 \<and> source_texts r2 = higher @ t # lower2
      \<and> status r1 = status r2
      \<and> (\<forall>s \<in> set higher. answer_if_any s = None) \<and> answer_if_any t = Some a"
  then have f1: "first_some answer_if_any (source_texts r1) = Some a"
    and f2: "first_some answer_if_any (source_texts r2) = Some a"
    by (simp_all add: first_some_shadow)
  from h have st: "status r1 = status r2" by simp
  show "eight_puzzle_test r1 = eight_puzzle_test r2"
    by (simp add: eight_puzzle_test_sources f1 f2 st)
  show "map_of (details (eight_puzzle_test r1)) ''output_answer'' = Some (JStr a)"
    by (simp add: eight_puzzle_test_sources f1)
  show "passed (eight_puzzle_test r1)
          = (status r1 = Some ''success'' \<and> normalize_answer a = normalize_answer EXPECTED_ANSWER)"
    by (simp add: eight_puzzle_test_sources f1)
next
  assume h: "source_texts r1' = higher' @ t' # lower1' \<and> source_texts r2' = higher' @ t' # lower2'
      \<and> status r1' = status r2'
      \<and> (\<forall>s \<in> set higher'. json_if_any s = None) \<and> json_if_any t' = Some d"
  then have f1: "first_some json_if_any (source_texts r1') = Some d"
    and f2: "first_some json_if_any (source_texts r2') = Some d"
    by (simp_all add: first_some_shadow)
  from h have st: "status r1' = status r2'" by simp
  show "linear_regime_test r1' = linear_regime_test r2'"
    by (simp add: linear_regime_test_sources f1 f2 st)
  show "linear_regime_test r1' = grade_json (status r1' = Some ''success'') d"
    by (simp add: linear_regime_test_sources f1)
qed

theorem first_success_shadows_lower_sources_witness:
  \<open>source_texts
      \<lparr>status = Some ''success'',
       conversation = Some [Message (Some ''assistant'')
          (Some [ToolCall (Some ''task_complete'')
                   (Some (JObj [(''result'', JStr ''<answer>WRONG</answer>'')]))])
          (Some ''<answer>EFPTGK</answer>'')],
       task_result = Some ''<answer> </answer>''\<rparr>
     = [''<answer> </answer>''] @ ''<answer>WRONG</answer>'' # [''<answer>EFPTGK</answer>'']
   \<and> answer_if_any ''<answer>EFPTGK</answer>'' = Some ''EFPTGK''
   \<and> normalize_answer ''EFPTGK'' = normalize_answer EXPECTED_ANSWER
   \<and> eight_puzzle_test
      \<lparr>status = Some ''success'',
       conversation = Some [Message (Some ''assistant'')
          (Some [ToolCall (Some ''task_complete'')
                   (Some (JObj [(''result'', JStr ''<answer>WRONG</answer>'')]))])
          (Some ''<answer>EFPTGK</answer>'')],
       task_result = Some ''<answer> </answer>''\<rparr>
     = eight_puzzle_test
      \<lparr>status = Some ''success'',
       conversation = Some [Message (Some ''assistant'')
          (Some [ToolCall (Some ''task_complete'')
                   (Some (JObj [(''result'', JStr ''<answer>WRONG</answer>'')]))])
          None],
       task_result = Some ''<answer> </answer>''\<rparr>
   \<and> \<not> passed (eight_puzzle_test
      \<lparr>status = Some ''success'',
       conversation = Some [Message (Some ''assistant'')
          (Some [ToolCall (Some ''task_complete'')
                   (Some (JObj [(''result'', JStr ''<answer>WRONG</answer>'')]))])
          (Some ''<answer>EFPTGK</answer>'')],
       task_result = Some ''<answer> </answer>''\<rparr>)
   \<and> source_texts
      \<lparr>status = Some ''success'',
       conversation = Some [Message (Some ''assistant'')
          (Some [ToolCall (Some ''task_complete'')
                   (Some (JObj [(''result'', JStr ''{"regime_count": 3}'')]))])
          (Some ''{"regime_count": 3, "breakpoints": ["2024-07-27", "2025-02-16"]}'')],
       task_result = Some ''{}''\<rparr>
     = [''{}''] @ ''{"regime_count": 3}''
         # [''{"regime_count": 3, "breakpoints": ["2024-07-27", "2025-02-16"]}'']
   \<and> linear_regime_test
      \<lparr>status = Some ''success'',
       conversation = Some [Message (Some ''assistant'')
          (Some [ToolCall (Some ''task_complete'')
                   (Some (JObj [(''result'', JStr ''{"regime_count": 3}'')]))])
          (Some ''{"regime_count": 3, "breakpoints": ["2024-07-27", "2025-02-16"]}'')],
       task_result = Some ''{}''\<rparr>
     = Inr \<lparr>passed = False, feedback = [MissingField ''breakpoints''],
            details = [(''task_completed'', JBool True),
                       (''output_json'', JObj [(''regime_count'', JInt 3)])]\<rparr>\<close>
proof -
  let ?r1 = \<open>\<lparr>status = Some ''success'',
       conversation = Some [Message (Some ''assistant'')
          (Some [ToolCall (Some ''task_complete'')
                   (Some (JObj [(''result'', JStr ''<answer>WRONG</answer>'')]))])
          (Some ''<answer>EFPTGK</answer>'')],
       task_result = Some ''<answer> </answer>''\<rparr>\<close>
  let ?r2 = \<open>\<lparr>status = Some ''success'',
       conversation = Some [Message (Some ''assistant'')
          (Some [ToolCall (Some ''task_complete'')
                   (Some (JObj [(''result'', JStr ''<answer>WRONG</answer>'')]))])
          None],
       task_result = Some ''<answer> </answer>''\<rparr>\<close>
  let ?r2' = \<open>\<lparr>status = Some ''success'',
       conversation = Some [Message (Some ''assistant'')
          (Some [ToolCall (Some ''task_complete'')
                   (Some (JObj [(''result'', JStr ''{"regime_count": 3}'')]))])
          None],
       task_result = Some ''{}''\<rparr>\<close>
  let ?r1' = \<open>\<lparr>status = Some ''success'',
       conversation = Some [Message (Some ''assistant'')
          (Some [ToolCall (Some ''task_complete'')
                   (Some (JObj [(''result'', JStr ''{"regime_count": 3}'')]))])
          (Some ''{"regime_count": 3, "breakpoints": ["2024-07-27", "2025-02-16"]}'')],
       task_result = Some ''{}''\<rparr>\<close>
  have s1: \<open>source_texts ?r1
      = [''<answer> </answer>''] @ ''<answer>WRONG</answer>'' # [''<answer>EFPTGK</answer>'']\<close>
    by code_simp
  have s2: \<open>source_texts ?r2 = [''<answer> </answer>''] @ ''<answer>WRONG</answer>'' # [[]]\<close>
    by code_simp
  have s2': \<open>source_texts ?r2' = [''{}''] @ ''{"regime_count": 3}'' # [[]]\<close>
    by code_simp
  have sts: \<open>status ?r1 = status ?r2\<close> \<open>status ?r1' = status ?r2'\<close>
    by simp_all
  have hi: \<open>\<forall>s \<in> set [''<answer> </answer>'']. answer_if_any s = None\<close>
    by code_simp
  have a: \<open>answer_if_any ''<answer>WRONG</answer>'' = Some ''WRONG''\<close>
    by code_simp
  have lo: \<open>answer_if_any ''<answer>EFPTGK</answer>'' = Some ''EFPTGK''\<close>
    by code_simp
  have ok: \<open>normalize_answer ''EFPTGK'' = normalize_answer EXPECTED_ANSWER\<close>
    by code_simp
  have wrong: \<open>normalize_answer ''WRONG'' \<noteq> normalize_answer EXPECTED_ANSWER\<close>
    by code_simp
  have s1': \<open>source_texts ?r1'
      = [''{}''] @ ''{"regime_count": 3}''
         # [''{"regime_count": 3, "breakpoints": ["2024-07-27", "2025-02-16"]}'']\<close>
    by code_simp
  have hi': \<open>\<forall>s \<in> set [''{}'']. json_if_any s = None\<close>
    by code_simp
  have a': \<open>json_if_any ''{"regime_count": 3}'' = Some [(''regime_count'', JInt 3)]\<close>
    by code_simp
  have g: \<open>grade_json (status ?r1' = Some ''success'') [(''regime_count'', JInt 3)]
      = Inr \<lparr>passed = False, feedback = [MissingField ''breakpoints''],
             details = [(''task_completed'', JBool True),
                        (''output_json'', JObj [(''regime_count'', JInt 3)])]\<rparr>\<close>
    by code_simp
  note inst = first_success_shadows_lower_sources
      [where ?r1.0 = ?r1 and ?r2.0 = ?r2 and higher = \<open>[''<answer> </answer>'']\<close>
        and t = \<open>''<answer>WRONG</answer>''\<close> and ?lower1.0 = \<open>[''<answer>EFPTGK</answer>'']\<close>
        and ?lower2.0 = \<open>[[]]\<close> and a = \<open>''WRONG''\<close>
        and r1' = ?r1' and r2' = ?r2' and higher' = \<open>[''{}'']\<close>
        and t' = \<open>''{"regime_count": 3}''\<close>
        and lower1' = \<open>[''{"regime_count": 3, "breakpoints": ["2024-07-27", "2025-02-16"]}'']\<close>
        and lower2' = \<open>[[]]\<close>
        and d = \<open>[(''regime_count'', JInt 3)]\<close>]
  from inst s1 s2 sts hi a have eq:
    \<open>eight_puzzle_test ?r1 = eight_puzzle_test ?r2\<close>
    and \<open>passed (eight_puzzle_test ?r1)
       = (status ?r1 = Some ''success''
          \<and> normalize_answer ''WRONG'' = normalize_answer EXPECTED_ANSWER)\<close>
    by blast+
  with wrong have np: \<open>\<not> passed (eight_puzzle_test ?r1)\<close> by blast
  from inst s1' s2' sts hi' a' have
    \<open>linear_regime_test ?r1' = grade_json (status ?r1' = Some ''success'') [(''regime_count'', JInt 3)]\<close>
    by blast
  with g have lr: \<open>linear_regime_test ?r1'
      = Inr \<lparr>passed = False, feedback = [MissingField ''breakpoints''],
             details = [(''task_completed'', JBool True),
                        (''output_json'', JObj [(''regime_count'', JInt 3)])]\<rparr>\<close>
    by simp
  from s1 lo ok eq np s1' lr show ?thesis by blast
qed

text \<open>
  C10. A tag pair whose trimmed body is empty counts as no payload, in every source.
  The extractor's result is then the empty string, which is falsy. The scanner goes on:
  it returns the first non-empty payload that follows sources without one, a message
  all of whose texts are without a payload is passed over, and a transcript without a
  payload yields none. The grader does the same with the direct result: an empty
  \<^verbatim>\<open>task_result\<close>, or one whose extraction is empty, is graded as if there were none, the
  payload graded is the first non-empty one of all sources, and when no source holds one
  the grader returns the not-found outcome.
\<close>

theorem empty_body_is_not_found:
  "(answer_search t = Some body \<and> py_strip body = []
      \<longrightarrow> extract_answer_from_text t = Some [] \<and> answer_if_any t = None)
   \<and> (two_pass_texts conv = higher @ s # lower
       \<and> (\<forall>x \<in> set higher. \<not> truthy_str (extract_answer_from_text x))
       \<and> extract_answer_from_text s = Some a \<and> a \<noteq> []
      \<longrightarrow> extract_answer_from_conversation conv = Some a)
   \<and> ((\<forall>x \<in> set (tool_result_texts m @ content_texts m).
          \<not> truthy_str (extract_answer_from_text x))
      \<longrightarrow> extract_answer_from_conversation (older @ m # newer)
            = extract_answer_from_conversation (older @ newer))
   \<and> ((\<forall>x \<in> set (two_pass_texts conv'). \<not> truthy_str (extract_answer_from_text x))
      \<longrightarrow> extract_answer_from_conversation conv' = None)
   \<and> (source_texts r = higher' @ s' # lower'
       \<and> (\<forall>x \<in> set higher'. \<not> truthy_str (extract_answer_from_text x))
       \<and> extract_answer_from_text s' = Some a' \<and> a' \<noteq> []
      \<longrightarrow> map_of (details (eight_puzzle_test r)) ''output_answer'' = Some (JStr a')
          \<and> passed (eight_puzzle_test r)
              = (status r = Some ''success''
                 \<and> normalize_answer a' = normalize_answer EXPECTED_ANSWER))
   \<and> eight_puzzle_test (r0\<lparr>task_result := Some []\<rparr>)
       = eight_puzzle_test (r0\<lparr>task_result := None\<rparr>)
   \<and> (task_result r1 = Some t1 \<and> \<not> truthy_str (extract_answer_from_text t1)
      \<longrightarrow> eight_puzzle_test r1 = eight_puzzle_test (r1\<lparr>task_result := None\<rparr>))
   \<and> ((\<forall>x \<in> set (source_texts r2). \<not> truthy_str (extract_answer_from_text x))
      \<longrightarrow> eight_puzzle_test r2
            = \<lparr>passed = False, feedback = [NoValidAnswer],
               details = [(''task_completed'', JBool (status r2 = Some ''success'')),
                          (''conversation_length'',
                             JInt (int (length (case conversation r2 of Some c \<Rightarrow> c
                                                | None \<Rightarrow> []))))]\<rparr>)"
proof (intro conjI impI)
  assume h: "answer_search t = Some body \<and> py_strip body = []"
  then show "extract_answer_from_text t = Some []"
    by (simp add: extract_answer_from_text_def)
  from h show "answer_if_any t = None"
    by (simp add: answer_if_any_def extract_answer_from_text_def)
next
  assume h: "two_pass_texts conv = higher @ s # lower
       \<and> (\<forall>x \<in> set higher. \<not> truthy_str (extract_answer_from_text x))
       \<and> extract_answer_from_text s = Some a \<and> a \<noteq> []"
  then have "first_some answer_if_any (higher @ s # lower) = Some a"
    by (intro first_some_after_empty) simp_all
  with h show "extract_answer_from_conversation conv = Some a"
    by (simp add: scan_answer_two_pass)
next
  assume "\<forall>x \<in> set (tool_result_texts m @ content_texts m).
          \<not> truthy_str (extract_answer_from_text x)"
  then show "extract_answer_from_conversation (older @ m # newer)
            = extract_answer_from_conversation (older @ newer)"
    by (rule scan_answer_skips_message)
next
  assume "\<forall>x \<in> set (two_pass_texts conv'). \<not> truthy_str (extract_answer_from_text x)"
  then show "extract_answer_from_conversation conv' = None"
    by (simp add: scan_answer_two_pass first_some_None_iff answer_if_any_None_iff)
next
  assume h: "source_texts r = higher' @ s' # lower'
       \<and> (\<forall>x \<in> set higher'. \<not> truthy_str (extract_answer_from_text x))
       \<and> extract_answer_from_text s' = Some a' \<and> a' \<noteq> []"
  then have "first_some answer_if_any (higher' @ s' # lower') = Some a'"
    by (intro first_some_after_empty) simp_all
  with h have f: "first_some answer_if_any (source_texts r) = Some a'"
    by simp
  show "map_of (details (eight_puzzle_test r)) ''output_answer'' = Some (JStr a')"
    by (simp add: eight_puzzle_test_sources f)
  show "passed (eight_puzzle_test r)
      = (status r = Some ''success'' \<and> normalize_answer a' = normalize_answer EXPECTED_ANSWER)"
    by (simp add: eight_puzzle_test_sources f)
next
  show "eight_puzzle_test (r0\<lparr>task_result := Some []\<rparr>)
      = eight_puzzle_test (r0\<lparr>task_result := None\<rparr>)"
    by (simp add: eight_puzzle_test_sources source_texts_def split: option.split)
next
  assume "task_result r1 = Some t1 \<and> \<not> truthy_str (extract_answer_from_text t1)"
  then have "task_result r1 = Some t1" "answer_if_any t1 = None"
    by (simp_all add: answer_if_any_None_iff)
  then show "eight_puzzle_test r1 = eight_puzzle_test (r1\<lparr>task_result := None\<rparr>)"
    by (simp add: eight_puzzle_test_sources source_texts_def split: option.split)
next
  assume "\<forall>x \<in> set (source_texts r2). \<not> truthy_str (extract_answer_from_text x)"
  then have "first_some answer_if_any (source_texts r2) = None"
    by (simp add: first_some_None_iff answer_if_any_None_iff)
  then show "eight_puzzle_test r2
            = \<lparr>passed = False, feedback = [NoValidAnswer],
               details = [(''task_completed'', JBool (status r2 = Some ''success'')),
                          (''conversation_length'',
                             JInt (int (length (case conversation r2 of Some c \<Rightarrow> c
                                                | None \<Rightarrow> []))))]\<rparr>"
    by (simp add: eight_puzzle_test_sources)
qed

theorem empty_body_is_not_found_witness:
  \<open>extract_answer_from_text (''<answer>'' @ [CHR 0xA0] @ ''</answer>'') = Some []
   \<and> answer_if_any (''<answer>'' @ [CHR 0xA0] @ ''</answer>'') = None
   \<and> extract_answer_from_conversation
        [Message (Some ''assistant'')
           (Some [ToolCall (Some ''task_complete'')
                    (Some (JObj [(''result'', JStr ''<answer></answer>'')]))])
           (Some ''<answer>EFPTGK</answer>'')]
      = Some ''EFPTGK''
   \<and> extract_answer_from_conversation
        ([Message (Some ''assistant'') None (Some ''<answer>OLD</answer>'')]
         @ Message (Some ''assistant'')
             (Some [ToolCall (Some ''task_complete'')
                      (Some (JObj [(''result'', JStr ''<answer> </answer>'')]))])
             (Some ''<ANSWER></ANSWER>'')
           # [])
      = Some ''OLD''
   \<and> extract_answer_from_conversation
        [Message (Some ''assistant'')
           (Some [ToolCall (Some ''task_complete'')
                    (Some (JObj [(''result'', JStr ''<answer> </answer>'')]))])
           (Some ''<ANSWER></ANSWER>'')]
      = None
   \<and> passed (eight_puzzle_test
        \<lparr>status = Some ''success'',
         conversation = Some [Message (Some ''assistant'')
            (Some [ToolCall (Some ''task_complete'')
                     (Some (JObj [(''result'', JStr ''<answer></answer>'')]))])
            (Some ''<answer>EFPTGK</answer>'')],
         task_result = Some (''<answer>'' @ [CHR 0xA0] @ ''</answer>'')\<rparr>)
   \<and> eight_puzzle_test
        \<lparr>status = Some ''success'',
         conversation = Some [Message (Some ''assistant'')
            (Some [ToolCall (Some ''task_complete'')
                     (Some (JObj [(''result'', JStr ''<answer> </answer>'')]))])
            (Some ''<ANSWER></ANSWER>'')],
         task_result = Some (''<answer>'' @ [CHR 0xA0] @ ''</answer>'')\<rparr>
      = \<lparr>passed = False, feedback = [NoValidAnswer],
         details = [(''task_completed'', JBool True), (''conversation_length'', JInt 1)]\<rparr>\<close>
proof -
  let ?t = \<open>''<answer>'' @ [CHR 0xA0] @ ''</answer>''\<close>
  let ?found = \<open>Message (Some ''assistant'')
           (Some [ToolCall (Some ''task_complete'')
                    (Some (JObj [(''result'', JStr ''<answer></answer>'')]))])
           (Some ''<answer>EFPTGK</answer>'')\<close>
  let ?m = \<open>Message (Some ''assistant'')
             (Some [ToolCall (Some ''task_complete'')
                      (Some (JObj [(''result'', JStr ''<answer> </answer>'')]))])
             (Some ''<ANSWER></ANSWER>'')\<close>
  let ?older = \<open>[Message (Some ''assistant'') None (Some ''<answer>OLD</answer>'')]\<close>
  let ?r = \<open>\<lparr>status = Some ''success'', conversation = Some [?found], task_result = Some ?t\<rparr>\<close>
  let ?r2 = \<open>\<lparr>status = Some ''success'', conversation = Some [?m], task_result = Some ?t\<rparr>\<close>
  have h1: \<open>answer_search ?t = Some [CHR 0xA0] \<and> py_strip [CHR 0xA0] = []\<close>
    by code_simp
  have h2: \<open>two_pass_texts [?found] = [''<answer></answer>''] @ ''<answer>EFPTGK</answer>'' # []
       \<and> (\<forall>x \<in> set [''<answer></answer>'']. \<not> truthy_str (extract_answer_from_text x))
       \<and> extract_answer_from_text ''<answer>EFPTGK</answer>'' = Some ''EFPTGK''
       \<and> ''EFPTGK'' \<noteq> []\<close>
    by code_simp
  have h3: \<open>\<forall>x \<in> set (tool_result_texts ?m @ content_texts ?m).
          \<not> truthy_str (extract_answer_from_text x)\<close>
    by code_simp
  have old: \<open>extract_answer_from_conversation (?older @ []) = Some ''OLD''\<close>
    by code_simp
  have h4: \<open>\<forall>x \<in> set (two_pass_texts [?m]). \<not> truthy_str (extract_answer_from_text x)\<close>
    by code_simp
  have h5: \<open>source_texts ?r = [?t, ''<answer></answer>''] @ ''<answer>EFPTGK</answer>'' # []
       \<and> (\<forall>x \<in> set [?t, ''<answer></answer>'']. \<not> truthy_str (extract_answer_from_text x))
       \<and> extract_answer_from_text ''<answer>EFPTGK</answer>'' = Some ''EFPTGK''
       \<and> ''EFPTGK'' \<noteq> []\<close>
    by code_simp
  have ok: \<open>status ?r = Some ''success''\<close>
    \<open>normalize_answer ''EFPTGK'' = normalize_answer EXPECTED_ANSWER\<close>
    by code_simp+
  have h7: \<open>task_result ?r2 = Some ?t \<and> \<not> truthy_str (extract_answer_from_text ?t)\<close>
    by code_simp
  have h8: \<open>\<forall>x \<in> set (source_texts ?r2). \<not> truthy_str (extract_answer_from_text x)\<close>
    by code_simp
  have vals: \<open>(status ?r2 = Some ''success'') = True\<close>
    \<open>int (length (case conversation ?r2 of Some c \<Rightarrow> c | None \<Rightarrow> [])) = 1\<close>
    by simp_all
  note inst = empty_body_is_not_found
      [where t = ?t and body = \<open>[CHR 0xA0]\<close> and conv = \<open>[?found]\<close>
        and higher = \<open>[''<answer></answer>'']\<close> and s = \<open>''<answer>EFPTGK</answer>''\<close>
        and lower = \<open>[]\<close> and a = \<open>''EFPTGK''\<close>
        and m = ?m and older = ?older and newer = \<open>[]\<close> and conv' = \<open>[?m]\<close>
        and r = ?r and higher' = \<open>[?t, ''<answer></answer>'']\<close>
        and s' = \<open>''<answer>EFPTGK</answer>''\<close> and lower' = \<open>[]\<close> and a' = \<open>''EFPTGK''\<close>
        and ?r0.0 = ?r and ?r1.0 = ?r2 and ?t1.0 = ?t and ?r2.0 = ?r2]
  from inst h1 have c1: \<open>extract_answer_from_text ?t = Some []\<close> \<open>answer_if_any ?t = None\<close>
    by blast+
  from inst h2 have c2: \<open>extract_answer_from_conversation [?found] = Some ''EFPTGK''\<close>
    by blast
  from inst h3 have \<open>extract_answer_from_conversation (?older @ ?m # [])
      = extract_answer_from_conversation (?older @ [])\<close>
    by blast
  with old have c3: \<open>extract_answer_from_conversation (?older @ ?m # []) = Some ''OLD''\<close>
    by (simp only:)
  from inst h4 have c4: \<open>extract_answer_from_conversation [?m] = None\<close>
    by blast
  from inst h5 have \<open>passed (eight_puzzle_test ?r)
      = (status ?r = Some ''success''
         \<and> normalize_answer ''EFPTGK'' = normalize_answer EXPECTED_ANSWER)\<close>
    by blast
  with ok have c5: \<open>passed (eight_puzzle_test ?r)\<close> by blast
  from inst h7 have \<open>eight_puzzle_test ?r2 = eight_puzzle_test (?r2\<lparr>task_result := None\<rparr>)\<close>
    by blast
  from inst h8 have \<open>eight_puzzle_test ?r2
      = \<lparr>passed = False, feedback = [NoValidAnswer],
         details = [(''task_completed'', JBool (status ?r2 = Some ''success'')),
                    (''conversation_length'',
                       JInt (int (length (case conversation ?r2 of Some c \<Rightarrow> c
                                          | None \<Rightarrow> []))))]\<rparr>\<close>
    by blast
  then have c8: \<open>eight_puzzle_test ?r2
      = \<lparr>passed = False, feedback = [NoValidAnswer],
         details = [(''task_completed'', JBool True), (''conversation_length'', JInt 1)]\<rparr>\<close>
    unfolding vals .
  from c1 c2 c3 c4 c5 c8 show ?thesis by blast
qed

text \<open>
  C7. For every record from which a payload is extracted, the verdict is
  \<open>passed = task_completed \<and> all fields valid\<close>, where \<open>task_completed\<close> holds exactly
  when the status is the string \<^verbatim>\<open>success\<close>: in eight-puzzle-game the field is the answer,
  compared after normalisation; in linear-regime-estimation the fields are
  \<open>regime_count\<close> and \<open>breakpoints\<close>, for every outcome the grader returns.
\<close>

theorem verdict_is_completion_and_correctness:
  "(first_some answer_if_any (source_texts r) = Some a
      \<longrightarrow> passed (eight_puzzle_test r)
            = (status r = Some ''success''
               \<and> normalize_answer a = normalize_answer EXPECTED_ANSWER)
          \<and> map_of (details (eight_puzzle_test r)) ''task_completed''
              = Some (JBool (status r = Some ''success'')))
   \<and> (first_some json_if_any (source_texts r') = Some d \<and> linear_regime_test r' = Inr out
      \<longrightarrow> passed out
            = (status r' = Some ''success'' \<and> regime_count_valid d \<and> breakpoints_valid d)
          \<and> map_of (details out) ''task_completed''
              = Some (JBool (status r' = Some ''success'')))"
proof (intro conjI impI)
  assume "first_some answer_if_any (source_texts r) = Some a"
  then show "passed (eight_puzzle_test r)
      = (status r = Some ''success'' \<and> normalize_answer a = normalize_answer EXPECTED_ANSWER)"
    and "map_of (details (eight_puzzle_test r)) ''task_completed''
      = Some (JBool (status r = Some ''success''))"
    by (simp_all add: eight_puzzle_test_sources)
next
  assume h: "first_some json_if_any (source_texts r') = Some d \<and> linear_regime_test r' = Inr out"
  then have "grade_json (status r' = Some ''success'') d = Inr out"
    by (auto simp: linear_regime_test_sources)
  from grade_json_passed [OF this]
  show "passed out = (status r' = Some ''success'' \<and> regime_count_valid d \<and> breakpoints_valid d)"
    and "map_of (details out) ''task_completed'' = Some (JBool (status r' = Some ''success''))"
    by simp_all
qed


theorem verdict_is_completion_and_correctness_witness:
  \<open>first_some answer_if_any (source_texts
       \<lparr>status = Some ''timeout'', conversation = None,
        task_result = Some ''<answer>EFPTGK</answer>''\<rparr>) = Some ''EFPTGK''
   \<and> normalize_answer ''EFPTGK'' = normalize_answer EXPECTED_ANSWER
   \<and> \<not> passed (eight_puzzle_test
       \<lparr>status = Some ''timeout'', conversation = None,
        task_result = Some ''<answer>EFPTGK</answer>''\<rparr>)
   \<and> regime_count_valid [(''regime_count'', JInt 3), (''breakpoints'', JList [])]
   \<and> \<not> breakpoints_valid [(''regime_count'', JInt 3), (''breakpoints'', JList [])]
   \<and> linear_regime_test
       \<lparr>status = Some ''success'', conversation = None,
        task_result = Some ''{"regime_count": 3, "breakpoints": []}''\<rparr>
     = Inr \<lparr>passed = False,
            feedback = [FoundJson [(''regime_count'', JInt 3), (''breakpoints'', JList [])],
                        RegimeCountLine True (JInt 3) 3,
                        BreakpointLine (CountMismatch 2 0)],
            details = [(''task_completed'', JBool True),
                       (''output_json'',
                          JObj [(''regime_count'', JInt 3), (''breakpoints'', JList [])]),
                       (''regime_count_correct'', JBool True),
                       (''breakpoints_correct'', JBool False),
                       (''expected_regime_count'', JInt 3),
                       (''expected_breakpoints'',
                          JList [JStr ''2024-07-27'', JStr ''2025-02-16'']),
                       (''tolerance_days'', JInt 7)]\<rparr>\<close>
proof -
  let ?r = \<open>\<lparr>status = Some ''timeout'', conversation = None,
        task_result = Some ''<answer>EFPTGK</answer>''\<rparr>\<close>
  let ?r' = \<open>\<lparr>status = Some ''success'', conversation = None,
        task_result = Some ''{"regime_count": 3, "breakpoints": []}''\<rparr>\<close>
  let ?d = \<open>[(''regime_count'', JInt 3), (''breakpoints'', JList [])]\<close>
  let ?out = \<open>\<lparr>passed = False,
            feedback = [FoundJson [(''regime_count'', JInt 3), (''breakpoints'', JList [])],
                        RegimeCountLine True (JInt 3) 3,
                        BreakpointLine (CountMismatch 2 0)],
            details = [(''task_completed'', JBool True),
                       (''output_json'',
                          JObj [(''regime_count'', JInt 3), (''breakpoints'', JList [])]),
                       (''regime_count_correct'', JBool True),
                       (''breakpoints_correct'', JBool False),
                       (''expected_regime_count'', JInt 3),
                       (''expected_breakpoints'',
                          JList [JStr ''2024-07-27'', JStr ''2025-02-16'']),
                       (''tolerance_days'', JInt 7)]\<rparr>\<close>
  have f: \<open>first_some answer_if_any (source_texts ?r) = Some ''EFPTGK''\<close>
    by code_simp
  have n: \<open>normalize_answer ''EFPTGK'' = normalize_answer EXPECTED_ANSWER\<close>
    by code_simp
  have st: \<open>status ?r \<noteq> Some ''success''\<close>
    by simp
  have f': \<open>first_some json_if_any (source_texts ?r') = Some ?d\<close>
    by code_simp
  have t: \<open>linear_regime_test ?r' = Inr ?out\<close>
    by code_simp
  have v: \<open>regime_count_valid ?d\<close> \<open>\<not> breakpoints_valid ?d\<close>
    by code_simp+
  note inst = verdict_is_completion_and_correctness
      [where r = ?r and a = \<open>''EFPTGK''\<close> and r' = ?r' and d = ?d and out = ?out]
  from inst f have \<open>passed (eight_puzzle_test ?r)
      = (status ?r = Some ''success''
         \<and> normalize_answer ''EFPTGK'' = normalize_answer EXPECTED_ANSWER)\<close>
    by blast
  with st have np: \<open>\<not> passed (eight_puzzle_test ?r)\<close> by blast
  from inst f' t have \<open>passed ?out
      = (status ?r' = Some ''success'' \<and> regime_count_valid ?d \<and> breakpoints_valid ?d)\<close>
    by blast
  from f n np v t show ?thesis by blast
qed

text \<open>
  C8, as stated, fails: the failing outcomes do not expose what the claim lists. The
  not-found outcome of either grader holds only \<open>task_completed\<close> and
  \<open>conversation_length\<close>; the missing-field and type-mismatch outcomes of
  linear-regime-estimation hold only \<open>task_completed\<close> and \<open>output_json\<close>. None of
  them holds an expected value, a boolean for a field, or the tolerance.
\<close>

theorem failing_outcomes_lack_details:
  \<open>eight_puzzle_test
      \<lparr>status = Some ''success'',
       conversation = Some [Message (Some ''user'') None (Some ''solve the puzzle'')],
       task_result = None\<rparr>
     = \<lparr>passed = False, feedback = [NoValidAnswer],
        details = [(''task_completed'', JBool True), (''conversation_length'', JInt 1)]\<rparr>
   \<and> map_of [(''task_completed'', JBool True), (''conversation_length'', JInt 1)]
         ''expected_answer'' = None
   \<and> linear_regime_test
      \<lparr>status = Some ''success'',
       conversation = Some [Message (Some ''user'') None (Some ''estimate the regimes'')],
       task_result = None\<rparr>
     = Inr \<lparr>passed = False, feedback = [NoValidJson],
            details = [(''task_completed'', JBool True), (''conversation_length'', JInt 1)]\<rparr>
   \<and> map_of [(''task_completed'', JBool True), (''conversation_length'', JInt 1)]
         ''tolerance_days'' = None
   \<and> linear_regime_test
      \<lparr>status = Some ''success'', conversation = None,
       task_result = Some ''{"regime_count": 3}''\<rparr>
     = Inr \<lparr>passed = False, feedback = [MissingField ''breakpoints''],
            details = [(''task_completed'', JBool True),
                       (''output_json'', JObj [(''regime_count'', JInt 3)])]\<rparr>
   \<and> linear_regime_test
      \<lparr>status = Some ''success'', conversation = None,
       task_result = Some ''{"regime_count": "3", "breakpoints": []}''\<rparr>
     = Inr \<lparr>passed = False, feedback = [MustBeInteger ''str''],
            details = [(''task_completed'', JBool True),
                       (''output_json'',
                          JObj [(''regime_count'', JStr ''3''), (''breakpoints'', JList [])])]\<rparr>
   \<and> map_of [(''task_completed'', JBool True),
              (''output_json'', JObj [(''regime_count'', JStr ''3''), (''breakpoints'', JList [])])]
         ''expected_regime_count'' = None\<close>
  by code_simp

text \<open>
  C8, amended. Every outcome exposes the completion flag. A not-found outcome exposes
  besides it only the length of the conversation; a missing-field or type-mismatch
  outcome of linear-regime-estimation only the raw payload. An outcome that reached the
  comparison of values exposes the raw payload, the expected reference values and one
  boolean per validated field, and in linear-regime-estimation the tolerance in days.
\<close>

theorem details_by_kind_of_outcome:
  "(first_some answer_if_any (source_texts rn) = None
      \<longrightarrow> details (eight_puzzle_test rn)
            = [(''task_completed'', JBool (status rn = Some ''success'')),
               (''conversation_length'',
                  JInt (int (length (case conversation rn of Some c \<Rightarrow> c | None \<Rightarrow> []))))])
   \<and> (first_some answer_if_any (source_texts ra) = Some a
      \<longrightarrow> details (eight_puzzle_test ra)
            = [(''task_completed'', JBool (status ra = Some ''success'')),
               (''output_answer'', JStr a),
               (''answer_correct'',
                  JBool (normalize_answer a = normalize_answer EXPECTED_ANSWER)),
               (''expected_answer'', JStr EXPECTED_ANSWER)])
   \<and> (first_some json_if_any (source_texts rj) = None
      \<longrightarrow> (\<exists>fb. linear_regime_test rj
            = Inr \<lparr>passed = False, feedback = fb,
                   details =
                     [(''task_completed'', JBool (status rj = Some ''success'')),
                      (''conversation_length'',
                         JInt (int (length (case conversation rj of Some c \<Rightarrow> c
                                            | None \<Rightarrow> []))))]\<rparr>))
   \<and> (first_some json_if_any (source_texts rm) = Some dm \<and> \<not> well_typed dm
      \<longrightarrow> (\<exists>fb. linear_regime_test rm
            = Inr \<lparr>passed = False, feedback = fb,
                   details = [(''task_completed'', JBool (status rm = Some ''success'')),
                              (''output_json'', JObj dm)]\<rparr>))
   \<and> (first_some json_if_any (source_texts r') = Some d \<and> well_typed d
        \<and> linear_regime_test r' = Inr out
      \<longrightarrow> details out
            = [(''task_completed'', JBool (status r' = Some ''success'')),
               (''output_json'', JObj d),
               (''regime_count_correct'', JBool (regime_count_valid d)),
               (''breakpoints_correct'', JBool (breakpoints_valid d)),
               (''expected_regime_count'', JInt EXPECTED_REGIME_COUNT),
               (''expected_breakpoints'', JList (map JStr EXPECTED_BREAKPOINTS)),
               (''tolerance_days'', JInt TOLERANCE_DAYS)])"
proof (intro conjI impI)
  assume "first_some answer_if_any (source_texts rn) = None"
  then show "details (eight_puzzle_test rn)
            = [(''task_completed'', JBool (status rn = Some ''success'')),
               (''conversation_length'',
                  JInt (int (length (case conversation rn of Some c \<Rightarrow> c | None \<Rightarrow> []))))]"
    by (simp add: eight_puzzle_test_sources)
next
  assume "first_some answer_if_any (source_texts ra) = Some a"
  then show "details (eight_puzzle_test ra)
            = [(''task_completed'', JBool (status ra = Some ''success'')),
               (''output_answer'', JStr a),
               (''answer_correct'',
                  JBool (normalize_answer a = normalize_answer EXPECTED_ANSWER)),
               (''expected_answer'', JStr EXPECTED_ANSWER)]"
    by (simp add: eight_puzzle_test_sources)
next
  assume "first_some json_if_any (source_texts rj) = None"
  then show "\<exists>fb. linear_regime_test rj
            = Inr \<lparr>passed = False, feedback = fb,
                   details =
                     [(''task_completed'', JBool (status rj = Some ''success'')),
                      (''conversation_length'',
                         JInt (int (length (case conversation rj of Some c \<Rightarrow> c
                                            | None \<Rightarrow> []))))]\<rparr>"
    by (simp add: linear_regime_test_sources)
next
  assume "first_some json_if_any (source_texts rm) = Some dm \<and> \<not> well_typed dm"
  then show "\<exists>fb. linear_regime_test rm
            = Inr \<lparr>passed = False, feedback = fb,
                   details = [(''task_completed'', JBool (status rm = Some ''success'')),
                              (''output_json'', JObj dm)]\<rparr>"
    using grade_json_ill_typed [of dm "status rm = Some ''success''"]
    by (simp add: linear_regime_test_sources)
next
  assume "first_some json_if_any (source_texts r') = Some d \<and> well_typed d
        \<and> linear_regime_test r' = Inr out"
  then have "well_typed d" "grade_json (status r' = Some ''success'') d = Inr out"
    by (auto simp: linear_regime_test_sources)
  then show "details out
            = [(''task_completed'', JBool (status r' = Some ''success'')),
               (''output_json'', JObj d),
               (''regime_count_correct'', JBool (regime_count_valid d)),
               (''breakpoints_correct'', JBool (breakpoints_valid d)),
               (''expected_regime_count'', JInt EXPECTED_REGIME_COUNT),
               (''expected_breakpoints'', JList (map JStr EXPECTED_BREAKPOINTS)),
               (''tolerance_days'', JInt TOLERANCE_DAYS)]"
    by (rule grade_json_well_typed)
qed

theorem details_by_kind_of_outcome_witness:
  \<open>first_some answer_if_any (source_texts
       \<lparr>status = Some ''success'',
        conversation = Some [Message (Some ''user'') None (Some ''solve the puzzle'')],
        task_result = None\<rparr>) = None
   \<and> details (eight_puzzle_test
       \<lparr>status = Some ''success'',
        conversation = Some [Message (Some ''user'') None (Some ''solve the puzzle'')],
        task_result = None\<rparr>)
     = [(''task_completed'', JBool True), (''conversation_length'', JInt 1)]
   \<and> first_some answer_if_any (source_texts
       \<lparr>status = Some ''success'', conversation = None,
        task_result = Some ''<answer>abc</answer>''\<rparr>) = Some ''abc''
   \<and> details (eight_puzzle_test
       \<lparr>status = Some ''success'', conversation = None,
        task_result = Some ''<answer>abc</answer>''\<rparr>)
     = [(''task_completed'', JBool True), (''output_answer'', JStr ''abc''),
        (''answer_correct'', JBool False), (''expected_answer'', JStr ''EFPTGK'')]
   \<and> first_some json_if_any (source_texts
       \<lparr>status = Some ''success'',
        conversation = Some [Message (Some ''user'') None (Some ''solve the puzzle'')],
        task_result = None\<rparr>) = None
   \<and> first_some json_if_any (source_texts
       \<lparr>status = Some ''success'', conversation = None,
        task_result = Some ''{"regime_count": 3}''\<rparr>) = Some [(''regime_count'', JInt 3)]
   \<and> \<not> well_typed [(''regime_count'', JInt 3)]
   \<and> first_some json_if_any (source_texts
       \<lparr>status = Some ''success'', conversation = None,
        task_result = Some ''{"regime_count": 3, "breakpoints": []}''\<rparr>)
     = Some [(''regime_count'', JInt 3), (''breakpoints'', JList [])]
   \<and> well_typed [(''regime_count'', JInt 3), (''breakpoints'', JList [])]
   \<and> linear_regime_test
       \<lparr>status = Some ''success'', conversation = None,
        task_result = Some ''{"regime_count": 3, "breakpoints": []}''\<rparr>
     = Inr \<lparr>passed = False,
            feedback = [FoundJson [(''regime_count'', JInt 3), (''breakpoints'', JList [])],
                        RegimeCountLine True (JInt 3) 3,
                        BreakpointLine (CountMismatch 2 0)],
            details = [(''task_completed'', JBool True),
                       (''output_json'',
                          JObj [(''regime_count'', JInt 3), (''breakpoints'', JList [])]),
                       (''regime_count_correct'', JBool True),
                       (''breakpoints_correct'', JBool False),
                       (''expected_regime_count'', JInt 3),
                       (''expected_breakpoints'',
                          JList [JStr ''2024-07-27'', JStr ''2025-02-16'']),
                       (''tolerance_days'', JInt 7)]\<rparr>\<close>
proof -
  let ?rn = \<open>\<lparr>status = Some ''success'',
        conversation = Some [Message (Some ''user'') None (Some ''solve the puzzle'')],
        task_result = None\<rparr>\<close>
  let ?ra = \<open>\<lparr>status = Some ''success'', conversation = None,
        task_result = Some ''<answer>abc</answer>''\<rparr>\<close>
  let ?rm = \<open>\<lparr>status = Some ''success'', conversation = None,
        task_result = Some ''{"regime_count": 3}''\<rparr>\<close>
  let ?dm = \<open>[(''regime_count'', JInt 3)]\<close>
  let ?r' = \<open>\<lparr>status = Some ''success'', conversation = None,
        task_result = Some ''{"regime_count": 3, "breakpoints": []}''\<rparr>\<close>
  let ?d = \<open>[(''regime_count'', JInt 3), (''breakpoints'', JList [])]\<close>
  let ?out = \<open>\<lparr>passed = False,
            feedback = [FoundJson [(''regime_count'', JInt 3), (''breakpoints'', JList [])],
                        RegimeCountLine True (JInt 3) 3,
                        BreakpointLine (CountMismatch 2 0)],
            details = [(''task_completed'', JBool True),
                       (''output_json'',
                          JObj [(''regime_count'', JInt 3), (''breakpoints'', JList [])]),
                       (''regime_count_correct'', JBool True),
                       (''breakpoints_correct'', JBool False),
                       (''expected_regime_count'', JInt 3),
                       (''expected_breakpoints'',
                          JList [JStr ''2024-07-27'', JStr ''2025-02-16'']),
                       (''tolerance_days'', JInt 7)]\<rparr>\<close>
  have hn: \<open>first_some answer_if_any (source_texts ?rn) = None\<close> by code_simp
  have ha: \<open>first_some answer_if_any (source_texts ?ra) = Some ''abc''\<close> by code_simp
  have hj: \<open>first_some json_if_any (source_texts ?rn) = None\<close> by code_simp
  have hm: \<open>first_some json_if_any (source_texts ?rm) = Some ?dm\<close> by code_simp
  have wm: \<open>\<not> well_typed ?dm\<close> by code_simp
  have hd: \<open>first_some json_if_any (source_texts ?r') = Some ?d\<close> by code_simp
  have wd: \<open>well_typed ?d\<close> by code_simp
  have t: \<open>linear_regime_test ?r' = Inr ?out\<close> by code_simp
  have vals: \<open>(status ?rn = Some ''success'') = True\<close>
    \<open>int (length (case conversation ?rn of Some c \<Rightarrow> c | None \<Rightarrow> [])) = 1\<close>
    \<open>(status ?ra = Some ''success'') = True\<close>
    by simp_all
  have wrong: \<open>(normalize_answer ''abc'' = normalize_answer ''EFPTGK'') = False\<close>
    \<open>EXPECTED_ANSWER = ''EFPTGK''\<close>
    by code_simp+
  note inst = details_by_kind_of_outcome
      [where rn = ?rn and ra = ?ra and a = \<open>''abc''\<close> and rj = ?rn and rm = ?rm and dm = ?dm
        and r' = ?r' and d = ?d and out = ?out]
  from inst hn have \<open>details (eight_puzzle_test ?rn)
      = [(''task_completed'', JBool (status ?rn = Some ''success'')),
         (''conversation_length'',
            JInt (int (length (case conversation ?rn of Some c \<Rightarrow> c | None \<Rightarrow> []))))]\<close>
    by blast
  then have c1: \<open>details (eight_puzzle_test ?rn)
      = [(''task_completed'', JBool True), (''conversation_length'', JInt 1)]\<close>
    unfolding vals .
  from inst ha have \<open>details (eight_puzzle_test ?ra)
      = [(''task_completed'', JBool (status ?ra = Some ''success'')),
         (''output_answer'', JStr ''abc''),
         (''answer_correct'', JBool (normalize_answer ''abc'' = normalize_answer EXPECTED_ANSWER)),
         (''expected_answer'', JStr EXPECTED_ANSWER)]\<close>
    by blast
  then have c2: \<open>details (eight_puzzle_test ?ra)
      = [(''task_completed'', JBool True), (''output_answer'', JStr ''abc''),
         (''answer_correct'', JBool False), (''expected_answer'', JStr ''EFPTGK'')]\<close>
    unfolding vals wrong .
  from inst hj have \<open>\<exists>fb. linear_regime_test ?rn
      = Inr \<lparr>passed = False, feedback = fb,
             details = [(''task_completed'', JBool (status ?rn = Some ''success'')),
                        (''conversation_length'',
                           JInt (int (length (case conversation ?rn of Some c \<Rightarrow> c
                                              | None \<Rightarrow> []))))]\<rparr>\<close>
    by blast
  from inst hm wm have \<open>\<exists>fb. linear_regime_test ?rm
      = Inr \<lparr>passed = False, feedback = fb,
             details = [(''task_completed'', JBool (status ?rm = Some ''success'')),
                        (''output_json'', JObj ?dm)]\<rparr>\<close>
    by blast
  from inst hd wd t have \<open>details ?out
      = [(''task_completed'', JBool (status ?r' = Some ''success'')),
         (''output_json'', JObj ?d),
         (''regime_count_correct'', JBool (regime_count_valid ?d)),
         (''breakpoints_correct'', JBool (breakpoints_valid ?d)),
         (''expected_regime_count'', JInt EXPECTED_REGIME_COUNT),
         (''expected_breakpoints'', JList (map JStr EXPECTED_BREAKPOINTS)),
         (''tolerance_days'', JInt TOLERANCE_DAYS)]\<close>
    by blast
  from hn c1 ha c2 hj hm wm hd wd t show ?thesis by blast
qed


text \<open>
  C4. For a \<open>breakpoints\<close> list of the expected length whose elements all parse as
  dates, the check parses the expected and the actual dates, sorts both ascending, pairs
  them by position, and passes exactly when every pair is at most 7 days apart
  (\<open>TOLERANCE_DAYS\<close>); when it fails, its diagnostics list the pairs that exceed the
  tolerance and no others. A list of the expected length with a malformed date fails
  with the parse error. With the expected \<^verbatim>\<open>["2024-07-27", "2025-02-16"]\<close> and the actual
  \<^verbatim>\<open>["2025-02-20", "2024-07-25"]\<close> the sorted pairs are 2 and 4 days apart and the
  field passes.
\<close>

theorem tolerant_date_validation:
  "(length bps = length EXPECTED_BREAKPOINTS \<and> parse_dates bps = Inr ds
      \<longrightarrow> check_breakpoints bps =
            Inr (list_all (\<lambda>(e, out, delta). delta \<le> 7)
                   (sorted_pairs [(2024, 7, 27), (2025, 2, 16)] ds),
                 if list_all (\<lambda>(e, out, delta). delta \<le> 7)
                      (sorted_pairs [(2024, 7, 27), (2025, 2, 16)] ds)
                 then AllWithinTolerance
                 else Mismatches (filter (\<lambda>(e, out, delta). delta > 7)
                                    (sorted_pairs [(2024, 7, 27), (2025, 2, 16)] ds))))
   \<and> (length bps' = length EXPECTED_BREAKPOINTS \<and> parse_dates bps' = Inl (ValueError date_str)
      \<longrightarrow> check_breakpoints bps' = Inr (False, DateParseError date_str))
   \<and> parse_dates (map JStr EXPECTED_BREAKPOINTS) = Inr [(2024, 7, 27), (2025, 2, 16)]
   \<and> TOLERANCE_DAYS = 7
   \<and> parse_dates [JStr ''2025-02-20'', JStr ''2024-07-25''] = Inr [(2025, 2, 20), (2024, 7, 25)]
   \<and> sorted_pairs [(2024, 7, 27), (2025, 2, 16)] [(2025, 2, 20), (2024, 7, 25)]
       = [((2024, 7, 27), (2024, 7, 25), 2), ((2025, 2, 16), (2025, 2, 20), 4)]
   \<and> check_breakpoints [JStr ''2025-02-20'', JStr ''2024-07-25''] = Inr (True, AllWithinTolerance)"
proof (intro conjI impI)
  assume "length bps = length EXPECTED_BREAKPOINTS \<and> parse_dates bps = Inr ds"
  then have "length bps = length EXPECTED_BREAKPOINTS" "parse_dates bps = Inr ds"
    by simp_all
  from check_breakpoints_parsed [OF this]
  show "check_breakpoints bps =
            Inr (list_all (\<lambda>(e, out, delta). delta \<le> 7)
                   (sorted_pairs [(2024, 7, 27), (2025, 2, 16)] ds),
                 if list_all (\<lambda>(e, out, delta). delta \<le> 7)
                      (sorted_pairs [(2024, 7, 27), (2025, 2, 16)] ds)
                 then AllWithinTolerance
                 else Mismatches (filter (\<lambda>(e, out, delta). delta > 7)
                                    (sorted_pairs [(2024, 7, 27), (2025, 2, 16)] ds)))"
    unfolding TOLERANCE_DAYS_def .
next
  assume "length bps' = length EXPECTED_BREAKPOINTS \<and> parse_dates bps' = Inl (ValueError date_str)"
  then have "length bps' = length EXPECTED_BREAKPOINTS"
    "parse_dates bps' = Inl (ValueError date_str)"
    by simp_all
  then show "check_breakpoints bps' = Inr (False, DateParseError date_str)"
    by (rule check_breakpoints_value_error)
next
  show "parse_dates (map JStr EXPECTED_BREAKPOINTS) = Inr [(2024, 7, 27), (2025, 2, 16)]"
    by (rule expected_dates)
next
  show "TOLERANCE_DAYS = 7" by (simp add: TOLERANCE_DAYS_def)
next
  show "parse_dates [JStr ''2025-02-20'', JStr ''2024-07-25''] = Inr [(2025, 2, 20), (2024, 7, 25)]"
    by code_simp
next
  show "sorted_pairs [(2024, 7, 27), (2025, 2, 16)] [(2025, 2, 20), (2024, 7, 25)]
       = [((2024, 7, 27), (2024, 7, 25), 2), ((2025, 2, 16), (2025, 2, 20), 4)]"
    by code_simp
next
  show "check_breakpoints [JStr ''2025-02-20'', JStr ''2024-07-25''] = Inr (True, AllWithinTolerance)"
    by code_simp
qed

theorem tolerant_date_validation_witness:
  "length [JStr ''2025-03-20'', JStr ''2024-07-25''] = length EXPECTED_BREAKPOINTS
   \<and> parse_dates [JStr ''2025-03-20'', JStr ''2024-07-25''] = Inr [(2025, 3, 20), (2024, 7, 25)]
   \<and> sorted_pairs [(2024, 7, 27), (2025, 2, 16)] [(2025, 3, 20), (2024, 7, 25)]
       = [((2024, 7, 27), (2024, 7, 25), 2), ((2025, 2, 16), (2025, 3, 20), 32)]
   \<and> check_breakpoints [JStr ''2025-03-20'', JStr ''2024-07-25'']
       = Inr (False, Mismatches [((2025, 2, 16), (2025, 3, 20), 32)])
   \<and> length [JStr ''2025-03-20'', JStr ''2024-02-30''] = length EXPECTED_BREAKPOINTS
   \<and> parse_dates [JStr ''2025-03-20'', JStr ''2024-02-30''] = Inl (ValueError ''2024-02-30'')
   \<and> check_breakpoints [JStr ''2025-03-20'', JStr ''2024-02-30'']
       = Inr (False, DateParseError ''2024-02-30'')"
proof -
  let ?bps = "[JStr ''2025-03-20'', JStr ''2024-07-25'']"
  let ?ds = "[(2025, 3, 20), (2024, 7, 25)] :: date list"
  let ?bps' = "[JStr ''2025-03-20'', JStr ''2024-02-30'']"
  have l: "length ?bps = length EXPECTED_BREAKPOINTS" "length ?bps' = length EXPECTED_BREAKPOINTS"
    by (simp_all add: EXPECTED_BREAKPOINTS_def)
  have p: "parse_dates ?bps = Inr ?ds" by code_simp
  have p': "parse_dates ?bps' = Inl (ValueError ''2024-02-30'')" by code_simp
  have sp: "sorted_pairs [(2024, 7, 27), (2025, 2, 16)] ?ds
       = [((2024, 7, 27), (2024, 7, 25), 2), ((2025, 2, 16), (2025, 3, 20), 32)]"
    by code_simp
  note inst = tolerant_date_validation
      [where bps = ?bps and ds = ?ds and bps' = ?bps' and date_str = "''2024-02-30''"]
  from inst l p have "check_breakpoints ?bps =
            Inr (list_all (\<lambda>(e, out, delta). delta \<le> 7)
                   (sorted_pairs [(2024, 7, 27), (2025, 2, 16)] ?ds),
                 if list_all (\<lambda>(e, out, delta). delta \<le> 7)
                      (sorted_pairs [(2024, 7, 27), (2025, 2, 16)] ?ds)
                 then AllWithinTolerance
                 else Mismatches (filter (\<lambda>(e, out, delta). delta > 7)
                                    (sorted_pairs [(2024, 7, 27), (2025, 2, 16)] ?ds)))"
    by blast
  then have c: "check_breakpoints ?bps = Inr (False, Mismatches [((2025, 2, 16), (2025, 3, 20), 32)])"
    unfolding sp by simp
  from inst l p' have c': "check_breakpoints ?bps' = Inr (False, DateParseError ''2024-02-30'')"
    by blast
  from l p sp c p' c' show ?thesis by blast
qed

text \<open>
  C5. When the number of actual breakpoints differs from the number expected, the check
  fails at once with the count-mismatch diagnostic, whatever the elements are: they are
  not parsed (elements that are no dates, or no strings, change nothing and raise
  nothing), and the outcome has \<open>passed = False\<close> and \<open>breakpoints_correct = False\<close>.
\<close>

theorem count_mismatch_fails_immediately:
  "(length bps \<noteq> length EXPECTED_BREAKPOINTS
      \<longrightarrow> check_breakpoints bps
            = Inr (False, CountMismatch (length EXPECTED_BREAKPOINTS) (length bps)))
   \<and> (length bps \<noteq> length EXPECTED_BREAKPOINTS
       \<and> map_of d ''regime_count'' = Some rc \<and> is_int rc
       \<and> map_of d ''breakpoints'' = Some (JList bps)
      \<longrightarrow> grade_json tc d
            = Inr \<lparr>passed = False,
                   feedback = [FoundJson d,
                               RegimeCountLine (int_equals rc EXPECTED_REGIME_COUNT) rc
                                 EXPECTED_REGIME_COUNT,
                               BreakpointLine (CountMismatch 2 (length bps))]
                              @ (if \<not> tc then [StatusNotSuccess] else []),
                   details = [(''task_completed'', JBool tc),
                              (''output_json'', JObj d),
                              (''regime_count_correct'',
                                 JBool (int_equals rc EXPECTED_REGIME_COUNT)),
                              (''breakpoints_correct'', JBool False),
                              (''expected_regime_count'', JInt EXPECTED_REGIME_COUNT),
                              (''expected_breakpoints'', JList (map JStr EXPECTED_BREAKPOINTS)),
                              (''tolerance_days'', JInt TOLERANCE_DAYS)]\<rparr>)"
proof (intro conjI impI)
  assume "length bps \<noteq> length EXPECTED_BREAKPOINTS"
  then show "check_breakpoints bps
            = Inr (False, CountMismatch (length EXPECTED_BREAKPOINTS) (length bps))"
    by (simp add: check_breakpoints_def)
next
  assume h: "length bps \<noteq> length EXPECTED_BREAKPOINTS
       \<and> map_of d ''regime_count'' = Some rc \<and> is_int rc
       \<and> map_of d ''breakpoints'' = Some (JList bps)"
  then have c: "check_breakpoints bps = Inr (False, CountMismatch 2 (length bps))"
    by (simp add: check_breakpoints_def EXPECTED_BREAKPOINTS_def)
  from h show "grade_json tc d
            = Inr \<lparr>passed = False,
                   feedback = [FoundJson d,
                               RegimeCountLine (int_equals rc EXPECTED_REGIME_COUNT) rc
                                 EXPECTED_REGIME_COUNT,
                               BreakpointLine (CountMismatch 2 (length bps))]
                              @ (if \<not> tc then [StatusNotSuccess] else []),
                   details = [(''task_completed'', JBool tc),
                              (''output_json'', JObj d),
                              (''regime_count_correct'',
                                 JBool (int_equals rc EXPECTED_REGIME_COUNT)),
                              (''breakpoints_correct'', JBool False),
                              (''expected_regime_count'', JInt EXPECTED_REGIME_COUNT),
                              (''expected_breakpoints'', JList (map JStr EXPECTED_BREAKPOINTS)),
                              (''tolerance_days'', JInt TOLERANCE_DAYS)]\<rparr>"
    by (simp add: grade_json_def c Let_def)
qed

theorem count_mismatch_fails_immediately_witness:
  \<open>length [JInt 20240727] \<noteq> length EXPECTED_BREAKPOINTS
   \<and> parse_dates [JInt 20240727] = Inl (AttributeError ''int'')
   \<and> check_breakpoints [JInt 20240727] = Inr (False, CountMismatch 2 1)
   \<and> linear_regime_test
        \<lparr>status = Some ''success'', conversation = None,
         task_result = Some ''{"regime_count": 3, "breakpoints": [20240727]}''\<rparr>
      = Inr \<lparr>passed = False,
             feedback = [FoundJson [(''regime_count'', JInt 3),
                                    (''breakpoints'', JList [JInt 20240727])],
                         RegimeCountLine True (JInt 3) 3,
                         BreakpointLine (CountMismatch 2 1)],
             details = [(''task_completed'', JBool True),
                        (''output_json'', JObj [(''regime_count'', JInt 3),
                                                (''breakpoints'', JList [JInt 20240727])]),
                        (''regime_count_correct'', JBool True),
                        (''breakpoints_correct'', JBool False),
                        (''expected_regime_count'', JInt 3),
                        (''expected_breakpoints'',
                           JList [JStr ''2024-07-27'', JStr ''2025-02-16'']),
                        (''tolerance_days'', JInt 7)]\<rparr>\<close>
proof -
  let ?bps = \<open>[JInt 20240727]\<close>
  let ?d = \<open>[(''regime_count'', JInt 3), (''breakpoints'', JList [JInt 20240727])]\<close>
  let ?r = \<open>\<lparr>status = Some ''success'', conversation = None,
         task_result = Some ''{"regime_count": 3, "breakpoints": [20240727]}''\<rparr>\<close>
  have l: \<open>length ?bps \<noteq> length EXPECTED_BREAKPOINTS\<close>
    by (simp add: EXPECTED_BREAKPOINTS_def)
  have p: \<open>parse_dates ?bps = Inl (AttributeError ''int'')\<close> by code_simp
  have h: \<open>length ?bps \<noteq> length EXPECTED_BREAKPOINTS
       \<and> map_of ?d ''regime_count'' = Some (JInt 3) \<and> is_int (JInt 3)
       \<and> map_of ?d ''breakpoints'' = Some (JList ?bps)\<close>
    using l by simp
  have f: \<open>first_some json_if_any (source_texts ?r) = Some ?d\<close> by code_simp
  note inst = count_mismatch_fails_immediately
      [where bps = ?bps and d = ?d and rc = \<open>JInt 3\<close> and tc = True]
  from inst l have c: \<open>check_breakpoints ?bps
      = Inr (False, CountMismatch (length EXPECTED_BREAKPOINTS) (length ?bps))\<close>
    by blast
  then have c1: \<open>check_breakpoints ?bps = Inr (False, CountMismatch 2 1)\<close>
    by (simp add: EXPECTED_BREAKPOINTS_def)
  from inst h have \<open>grade_json True ?d
            = Inr \<lparr>passed = False,
                   feedback = [FoundJson ?d,
                               RegimeCountLine (int_equals (JInt 3) EXPECTED_REGIME_COUNT) (JInt 3)
                                 EXPECTED_REGIME_COUNT,
                               BreakpointLine (CountMismatch 2 (length ?bps))]
                              @ (if \<not> True then [StatusNotSuccess] else []),
                   details = [(''task_completed'', JBool True),
                              (''output_json'', JObj ?d),
                              (''regime_count_correct'',
                                 JBool (int_equals (JInt 3) EXPECTED_REGIME_COUNT)),
                              (''breakpoints_correct'', JBool False),
                              (''expected_regime_count'', JInt EXPECTED_REGIME_COUNT),
                              (''expected_breakpoints'', JList (map JStr EXPECTED_BREAKPOINTS)),
                              (''tolerance_days'', JInt TOLERANCE_DAYS)]\<rparr>\<close>
    by blast
  then have g: \<open>linear_regime_test ?r
      = Inr \<lparr>passed = False,
             feedback = [FoundJson ?d, RegimeCountLine True (JInt 3) 3,
                         BreakpointLine (CountMismatch 2 1)],
             details = [(''task_completed'', JBool True),
                        (''output_json'', JObj ?d),
                        (''regime_count_correct'', JBool True),
                        (''breakpoints_correct'', JBool False),
                        (''expected_regime_count'', JInt 3),
                        (''expected_breakpoints'',
                           JList [JStr ''2024-07-27'', JStr ''2025-02-16'']),
                        (''tolerance_days'', JInt 7)]\<rparr>\<close>
    by (simp add: linear_regime_test_sources f EXPECTED_REGIME_COUNT_def
        EXPECTED_BREAKPOINTS_def TOLERANCE_DAYS_def)
  from l p c1 g show ?thesis by blast
qed

end
